theory Spec2Isabelle
  imports Complex_Main "HOL-Library.Sublist" "HOL-Library.Word"
begin

section \<open>The admission controller: class Semaphore\<close>

text \<open>
  The class keeps a counter of free permits and a queue of the \<open>resolve\<close> callbacks of the
  callers whose \<open>acquire()\<close> promise is still pending. A callback is identified with the
  caller it wakes (type \<open>'c\<close>).
\<close>

record 'c Semaphore =
  permits :: int
  queue :: "'c list"



text \<open>
  \<open>release\<close>: the counter goes up; when a callback is queued, the oldest one is shifted
  off, the counter goes down again and the callback is called. The result names the caller
  woken, if any.
\<close>

definition release :: "'c Semaphore \<Rightarrow> 'c option \<times> 'c Semaphore" where
  "release s =
     (let s1 = s\<lparr>permits := permits s + 1\<rparr>
      in case queue s1 of
           [] \<Rightarrow> (None, s1)
         | nextResolve # rest \<Rightarrow>
             (Some nextResolve, s1\<lparr>queue := rest, permits := permits s1 - 1\<rparr>))"


definition getQueueLength :: "'c Semaphore \<Rightarrow> nat" where
  "getQueueLength s = length (queue s)"








section \<open>Values, faults and effects\<close>

text \<open>
  JavaScript numbers that come out of the request's JSON are modelled as reals, status
  codes as integers, buffers as lists of bytes. Strings are lists of 8-bit characters
  (code units up to U+00FF).
\<close>

type_synonym number = real
type_synonym byte = "8 word"

datatype fault = JsError string

fun message :: "fault \<Rightarrow> string" where
  "message (JsError m) = m"

text \<open>
  An operation runs on a state and either throws or returns a value; both ways it leaves a
  state behind. \<open>bnd\<close> is sequencing (\<open>await\<close> included), \<open>try_catch\<close> is
  \<open>try { ... } catch (error) { ... }\<close>.
\<close>

type_synonym ('s, 'a) io = "'s \<Rightarrow> (fault + 'a) \<times> 's"

definition ret :: "'a \<Rightarrow> ('s, 'a) io" where
  "ret a = (\<lambda>s. (Inr a, s))"

definition throw :: "fault \<Rightarrow> ('s, 'a) io" where
  "throw e = (\<lambda>s. (Inl e, s))"

definition bnd :: "('s, 'a) io \<Rightarrow> ('a \<Rightarrow> ('s, 'b) io) \<Rightarrow> ('s, 'b) io" where
  "bnd m f = (\<lambda>s. case m s of (Inl e, s') \<Rightarrow> (Inl e, s') | (Inr a, s') \<Rightarrow> f a s')"

definition try_catch :: "('s, 'a) io \<Rightarrow> (fault \<Rightarrow> ('s, 'a) io) \<Rightarrow> ('s, 'a) io" where
  "try_catch m h = (\<lambda>s. case m s of (Inl e, s') \<Rightarrow> h e s' | (Inr a, s') \<Rightarrow> (Inr a, s'))"

text \<open>
  The state of the worker as far as the service reads and writes it: the browser and the
  rest of the environment (\<open>ext\<close>, opaque, changed only by the calls below), what was written
  with \<open>console.error\<close> and \<open>console.warn\<close> (the progress lines of \<open>console.log\<close> are
  left out), and the local disk as \<open>fs\<close> sees it.
\<close>

datatype log_line = Warned string | Errored string

record 'x world =
  ext :: 'x
  console :: "log_line list"
  dirs :: "string set"
  files :: "string \<rightharpoonup> byte list"

definition ext_call :: "('x, 'a) io \<Rightarrow> ('x world, 'a) io" where
  "ext_call m = (\<lambda>w. case m (ext w) of (r, x') \<Rightarrow> (r, w\<lparr>ext := x'\<rparr>))"

definition console_warn :: "string \<Rightarrow> ('x world, unit) io" where
  "console_warn line = (\<lambda>w. (Inr (), w\<lparr>console := console w @ [Warned line]\<rparr>))"

definition console_error :: "string \<Rightarrow> ('x world, unit) io" where
  "console_error line = (\<lambda>w. (Inr (), w\<lparr>console := console w @ [Errored line]\<rparr>))"

subsection \<open>Strings and buffers\<close>

text \<open>\<open>s.includes(d)\<close>: \<open>d\<close> occurs in \<open>s\<close> as a contiguous run.\<close>

fun str_includes :: "string \<Rightarrow> string \<Rightarrow> bool" where
  "str_includes [] d = (d = [])"
| "str_includes (c # cs) d = (prefix d (c # cs) \<or> str_includes cs d)"

text \<open>\<open>toLowerCase\<close> on the code units a \<open>char\<close> holds: A-Z and the capitals of Latin-1.\<close>

definition lower_char :: "char \<Rightarrow> char" where
  "lower_char c =
     (let n = (of_char c :: nat)
      in if (65 \<le> n \<and> n \<le> 90) \<or> (192 \<le> n \<and> n \<le> 222 \<and> n \<noteq> 215)
         then char_of (n + 32) else c)"

definition toLowerCase :: "string \<Rightarrow> string" where
  "toLowerCase s = map lower_char s"

text \<open>A string is truthy when it is not empty.\<close>

definition truthy :: "string \<Rightarrow> bool" where
  "truthy s = (s \<noteq> [])"

text \<open>\<open>Buffer.toString('base64')\<close>: the standard alphabet, padded with \<open>=\<close>.\<close>

definition base64_alphabet :: string where
  "base64_alphabet = ''ABCDEFGHIJKLMNOPQRSTUVWXYZabcdefghijklmnopqrstuvwxyz0123456789+/''"

definition base64_char :: "nat \<Rightarrow> char" where
  "base64_char n = base64_alphabet ! (n mod 64)"

fun toString_base64 :: "byte list \<Rightarrow> string" where
  "toString_base64 [] = []"
| "toString_base64 [a] =
     [base64_char (unat a div 4), base64_char (unat a mod 4 * 16), CHR ''='', CHR ''='']"
| "toString_base64 [a, b] =
     [base64_char (unat a div 4), base64_char (unat a mod 4 * 16 + unat b div 16),
      base64_char (unat b mod 16 * 4), CHR ''='']"
| "toString_base64 (a # b # c # rest) =
     [base64_char (unat a div 4), base64_char (unat a mod 4 * 16 + unat b div 16),
      base64_char (unat b mod 16 * 4 + unat c div 64), base64_char (unat c mod 64)]
     @ toString_base64 rest"

text \<open>
  The inverse, \<open>Buffer.from(s, "base64")\<close> on padded text: it is here to say what a base64
  text encodes.
\<close>

definition base64_index :: "char \<Rightarrow> nat" where
  "base64_index c = length (takeWhile (\<lambda>d. d \<noteq> c) base64_alphabet)"

fun fromString_base64 :: "string \<Rightarrow> byte list" where
  "fromString_base64 (c1 # c2 # c3 # c4 # rest) =
     (let n1 = base64_index c1; n2 = base64_index c2
      in if c3 = CHR ''='' then [of_nat (n1 * 4 + n2 div 16)]
         else (let n3 = base64_index c3
               in if c4 = CHR ''=''
                  then [of_nat (n1 * 4 + n2 div 16), of_nat (n2 mod 16 * 16 + n3 div 4)]
                  else [of_nat (n1 * 4 + n2 div 16), of_nat (n2 mod 16 * 16 + n3 div 4),
                        of_nat (n3 mod 4 * 64 + base64_index c4)]
                       @ fromString_base64 rest))"
| "fromString_base64 _ = []"

section \<open>The data model of the service\<close>

text \<open>
  The actions of a request. \<open>Unknown\<close> stands for an object whose \<open>type\<close> is none of the
  nine tags: the list comes out of the request's JSON unchecked, and the \<open>switch\<close> has a
  \<open>default\<close> branch for it. An optional field that is absent is \<open>None\<close>.
\<close>

datatype Action =
    Wait "number option" "string option"
  | Click string "bool option"
  | Screenshot "bool option"
  | Write string
  | Press string
  | Scroll "string option" "string option"
  | Scrape
  | ExecuteJavascript string
  | Pdf "bool option" "number option" "string option"
  | Unknown string

datatype jsvalue =
    JSUndefined
  | JSNull
  | JSBoolean bool
  | JSNumber number
  | JSString string
  | JSArray "jsvalue list"
  | JSObject "(string \<times> jsvalue) list"

fun js_typeof :: "jsvalue \<Rightarrow> string" where
  "js_typeof JSUndefined = ''undefined''"
| "js_typeof (JSBoolean _) = ''boolean''"
| "js_typeof (JSNumber _) = ''number''"
| "js_typeof (JSString _) = ''string''"
| "js_typeof _ = ''object''"

record ScrapeActionContent =
  scrape_url :: string
  scrape_html :: string

record JavascriptReturnValue =
  return_type :: string
  return_value :: jsvalue

record ActionResults =
  screenshots :: "string list"
  scrapes :: "ScrapeActionContent list"
  javascriptReturns :: "JavascriptReturnValue list"
  pdfs :: "string list"

record UrlModel =
  url :: string
  wait_after_load :: "number option"
  timeout :: "number option"
  headers :: "(string \<times> string) list option"
  check_selector :: "string option"
  skip_tls_verification :: "bool option"
  actions :: "Action list option"
  screenshot :: "bool option"
  full_page_screenshot :: "bool option"

record pdfOptions =
  landscape :: "bool option"
  scale :: "number option"
  format :: "string option"

section \<open>The browser and the platform\<close>

text \<open>
  Playwright's objects are records of their methods, each an operation on the environment
  that returns or throws. Only the methods the service calls are there. The two callbacks
  that \<open>scroll\<close> hands to \<open>evaluate\<close> run in the page: \<open>locator_scrollTop_add\<close> adds to the
  \<open>scrollTop\<close> of the element, \<open>window_scrollBy\<close> is the browser's function.
\<close>

datatype waitUntil = Load | Networkidle

datatype route_decision = Abort | Continue

record URL =
  hostname :: string

record 'x Response =
  response_status :: int
  allHeaders :: "('x, (string \<times> string) list) io"
  response_body :: "('x, byte list) io"

record 'x Page =
  goto :: "string \<Rightarrow> waitUntil \<Rightarrow> number \<Rightarrow> ('x, 'x Response option) io"
  waitForTimeout :: "number \<Rightarrow> ('x, unit) io"
  waitForSelector :: "string \<Rightarrow> number \<Rightarrow> ('x, unit) io"
  page_content :: "('x, string) io"
  page_url :: "'x \<Rightarrow> string"
  page_screenshot :: "bool \<Rightarrow> ('x, byte list) io"
  locator_all :: "string \<Rightarrow> ('x, ('x, unit) io list) io"
  page_click :: "string \<Rightarrow> ('x, unit) io"
  keyboard_type :: "string \<Rightarrow> ('x, unit) io"
  keyboard_press :: "string \<Rightarrow> ('x, unit) io"
  locator_scrollTop_add :: "string \<Rightarrow> number \<Rightarrow> ('x, unit) io"
  window_scrollBy :: "number \<Rightarrow> number \<Rightarrow> ('x, unit) io"
  evaluate :: "string \<Rightarrow> ('x, jsvalue) io"
  page_pdf :: "pdfOptions \<Rightarrow> ('x, byte list) io"
  setExtraHTTPHeaders :: "(string \<times> string) list \<Rightarrow> ('x, unit) io"
  page_close :: "('x, unit) io"

record 'x BrowserContext =
  route :: "string \<Rightarrow> (string \<Rightarrow> fault + route_decision) \<Rightarrow> ('x, unit) io"
  newPage :: "('x, 'x Page) io"
  context_close :: "('x, unit) io"

record proxyOptions =
  server :: string
  username :: "string option"
  password :: "string option"

record contextOptions =
  userAgent :: string
  viewport :: "nat \<times> nat"
  ignoreHTTPSErrors :: bool
  proxy :: "proxyOptions option"

text \<open>
  What the module takes from outside: the launched browser (\<open>newContext\<close>), the
  \<open>user-agents\<close> package, the \<open>URL\<close> constructor, the clock, the decoder of
  \<open>Buffer.toString("utf8")\<close>, the helper \<open>getError\<close> of \<open>./helpers/get_error\<close> (which is
  not among the sources) and the constants read from the process environment.
\<close>

record 'x Platform =
  newContext :: "contextOptions \<Rightarrow> ('x, 'x BrowserContext) io"
  UserAgent_toString :: "('x, string) io"
  new_URL :: "string \<Rightarrow> fault + URL"
  Date_toISOString :: "'x \<Rightarrow> string"
  toString_utf8 :: "byte list \<Rightarrow> string"
  getError :: "int option \<Rightarrow> string option"
  BLOCK_MEDIA :: bool
  PROXY_SERVER :: "string option"
  PROXY_USERNAME :: "string option"
  PROXY_PASSWORD :: "string option"
  SCREENSHOTS_DIR :: string

subsection \<open>The local disk\<close>

text \<open>
  \<open>fs.existsSync\<close>, \<open>fs.mkdirSync(dir, { recursive: true })\<close> and \<open>fs.writeFileSync\<close> on
  the directories and files of the state. Writing needs the directory of the file to exist;
  the ancestors that a recursive \<open>mkdir\<close> creates on the way are not tracked.
\<close>

definition dirname :: "string \<Rightarrow> string" where
  "dirname p = rev (drop 1 (dropWhile (\<lambda>c. c \<noteq> CHR ''/'') (rev p)))"

definition path_join :: "string \<Rightarrow> string \<Rightarrow> string" where
  "path_join dir name = dir @ ''/'' @ name"

definition existsSync :: "string \<Rightarrow> 'x world \<Rightarrow> bool" where
  "existsSync p w = (p \<in> dirs w \<or> files w p \<noteq> None)"

definition mkdirSync :: "string \<Rightarrow> ('x world, unit) io" where
  "mkdirSync p =
     (\<lambda>w. if files w p \<noteq> None then (Inl (JsError ''EEXIST''), w)
          else (Inr (), w\<lparr>dirs := insert p (dirs w)\<rparr>))"

definition writeFileSync :: "string \<Rightarrow> byte list \<Rightarrow> ('x world, unit) io" where
  "writeFileSync p data =
     (\<lambda>w. if p \<in> dirs w then (Inl (JsError ''EISDIR''), w)
          else if dirname p \<notin> dirs w then (Inl (JsError ''ENOENT''), w)
          else (Inr (), w\<lparr>files := (files w)(p \<mapsto> data)\<rparr>))"

section \<open>The network policy filter\<close>

definition AD_SERVING_DOMAINS :: "string list" where
  "AD_SERVING_DOMAINS =
     [''doubleclick.net'', ''adservice.google.com'', ''googlesyndication.com'',
      ''googletagservices.com'', ''googletagmanager.com'', ''google-analytics.com'',
      ''adsystem.com'', ''adservice.com'', ''adnxs.com'', ''ads-twitter.com'',
      ''facebook.net'', ''fbcdn.net'', ''amazon-adsystem.com'']"

text \<open>
  The handler of the route \<open>**/*\<close>, as a function of the URL of the intercepted request:
  what it tells the route, or the fault it throws. \<open>mk_URL\<close> is the \<open>URL\<close> constructor.
\<close>

definition ad_route_handler :: "(string \<Rightarrow> fault + URL) \<Rightarrow> string \<Rightarrow> fault + route_decision" where
  "ad_route_handler mk_URL request_url =
     (case mk_URL request_url of
        Inl e \<Rightarrow> Inl e
      | Inr requestUrl \<Rightarrow>
          (if list_ex (\<lambda>domain. str_includes (hostname requestUrl) domain) AD_SERVING_DOMAINS
           then Inr Abort
           else Inr Continue))"

text \<open>The handler of the media route, installed when \<open>BLOCK_MEDIA\<close> is set.\<close>

definition media_route_handler :: "string \<Rightarrow> fault + route_decision" where
  "media_route_handler request_url = Inr Abort"

text \<open>
  A stand-in for the \<open>URL\<close> constructor, used where a concrete constructor is needed. It is
  meant for strings of the shape \<open>scheme://host/...\<close> and for strings without a scheme, and
  says nothing of the other shapes the platform accepts. Without a scheme (a letter, then
  letters, digits, \<open>+\<close>, \<open>-\<close>, \<open>.\<close>, up to a colon) the constructor throws
  \<open>TypeError: Invalid URL\<close>, as it does for an empty host; the host name is what stands
  between \<open>//\<close> and the next \<open>/\<close>, \<open>?\<close> or \<open>#\<close>, in lower case.
\<close>

definition is_alpha :: "char \<Rightarrow> bool" where
  "is_alpha c = (let n = (of_char c :: nat) in (65 \<le> n \<and> n \<le> 90) \<or> (97 \<le> n \<and> n \<le> 122))"

definition is_scheme_char :: "char \<Rightarrow> bool" where
  "is_scheme_char c =
     (let n = (of_char c :: nat)
      in is_alpha c \<or> (48 \<le> n \<and> n \<le> 57) \<or> c = CHR ''+'' \<or> c = CHR ''-'' \<or> c = CHR ''.'')"

definition basic_URL :: "string \<Rightarrow> fault + URL" where
  "basic_URL s =
     (let scheme = takeWhile (\<lambda>c. c \<noteq> CHR '':'') s;
          rest = drop (length scheme + 1) s
      in if length scheme = length s \<or> scheme = [] \<or> \<not> is_alpha (hd scheme)
            \<or> \<not> list_all is_scheme_char scheme \<or> take 2 rest \<noteq> ''//''
         then Inl (JsError ''Invalid URL'')
         else
           (let host = takeWhile (\<lambda>c. c \<noteq> CHR ''/'' \<and> c \<noteq> CHR ''?'' \<and> c \<noteq> CHR ''#'') (drop 2 rest)
            in if host = [] then Inl (JsError ''Invalid URL'')
               else Inr \<lparr>hostname = toLowerCase host\<rparr>))"

section \<open>takeScreenshot\<close>

text \<open>\<open>timestamp.replace(/[:.]/g, "-")\<close>\<close>

definition replace_colons_dots :: "string \<Rightarrow> string" where
  "replace_colons_dots s = map (\<lambda>c. if c = CHR '':'' \<or> c = CHR ''.'' then CHR ''-'' else c) s"

definition screenshot_filepath :: "'x Platform \<Rightarrow> string \<Rightarrow> string" where
  "screenshot_filepath P stamp =
     path_join (SCREENSHOTS_DIR P) (''screenshot-'' @ replace_colons_dots stamp @ ''.png'')"

definition takeScreenshot :: "'x Platform \<Rightarrow> 'x Page \<Rightarrow> bool \<Rightarrow> ('x world, string) io" where
  "takeScreenshot P page fullPage =
     bnd (ext_call (page_screenshot page fullPage)) (\<lambda>screenshot.
     bnd (\<lambda>w. if \<not> existsSync (SCREENSHOTS_DIR P) w then mkdirSync (SCREENSHOTS_DIR P) w
               else (Inr (), w)) (\<lambda>_.
     bnd (\<lambda>w. (Inr (screenshot_filepath P (Date_toISOString P (ext w))), w)) (\<lambda>filepath.
     bnd (writeFileSync filepath screenshot) (\<lambda>_.
     ret (toString_base64 screenshot)))))"

section \<open>scrapePage\<close>

record ScrapeOutcome =
  content :: string
  status :: "int option"
  outcome_headers :: "(string \<times> string) list option"
  contentType :: "string option"

text \<open>
  \<open>Object.entries(headers).find(([key]) => key.toLowerCase() === "content-type")?.[1]\<close>
\<close>

definition find_content_type :: "(string \<times> string) list \<Rightarrow> string option" where
  "find_content_type hs =
     map_option snd (find (\<lambda>entry. toLowerCase (fst entry) = ''content-type'') hs)"

text \<open>
  \<open>ct && (ct.toLowerCase().includes("application/json") || ct.toLowerCase().includes("text/plain"))\<close>
\<close>

definition is_raw_content_type :: "string option \<Rightarrow> bool" where
  "is_raw_content_type ct =
     (case ct of
        None \<Rightarrow> False
      | Some c \<Rightarrow>
          truthy c \<and> (str_includes (toLowerCase c) ''application/json''
                      \<or> str_includes (toLowerCase c) ''text/plain''))"

text \<open>The wait after the load and the wait for the required selector.\<close>

definition post_load_waits :: "'x Page \<Rightarrow> number \<Rightarrow> number \<Rightarrow> string option \<Rightarrow> ('x world, unit) io" where
  "post_load_waits page waitAfterLoad tmo checkSelector =
     bnd (if waitAfterLoad > 0 then ext_call (waitForTimeout page waitAfterLoad) else ret ()) (\<lambda>_.
     case checkSelector of
       None \<Rightarrow> ret ()
     | Some sel \<Rightarrow>
         if truthy sel
         then try_catch (ext_call (waitForSelector page sel tmo))
                (\<lambda>error. throw (JsError ''Required selector not found''))
         else ret ())"

text \<open>What is returned, from the response of the navigation and the HTML of the page.\<close>

definition extract_outcome ::
  "'x Platform \<Rightarrow> 'x Response option \<Rightarrow> string \<Rightarrow> ('x world, ScrapeOutcome) io" where
  "extract_outcome P response html =
     (case response of
        None \<Rightarrow>
          ret \<lparr>content = html, status = None, outcome_headers = None, contentType = None\<rparr>
      | Some r \<Rightarrow>
          bnd (ext_call (allHeaders r)) (\<lambda>hs.
          bnd (if is_raw_content_type (find_content_type hs)
               then bnd (ext_call (response_body r)) (\<lambda>b. ret (toString_utf8 P b))
               else ret html) (\<lambda>c.
          ret \<lparr>content = c, status = Some (response_status r), outcome_headers = Some hs,
                contentType = find_content_type hs\<rparr>)))"

definition scrapePage ::
  "'x Platform \<Rightarrow> 'x Page \<Rightarrow> string \<Rightarrow> waitUntil \<Rightarrow> number \<Rightarrow> number \<Rightarrow> string option
     \<Rightarrow> ('x world, ScrapeOutcome) io" where
  "scrapePage P page u wait_until waitAfterLoad tmo checkSelector =
     bnd (ext_call (goto page u wait_until tmo)) (\<lambda>response.
     bnd (post_load_waits page waitAfterLoad tmo checkSelector) (\<lambda>_.
     bnd (ext_call (page_content page)) (\<lambda>html.
     extract_outcome P response html)))"

section \<open>executeActions\<close>

definition empty_results :: ActionResults where
  "empty_results = \<lparr>screenshots = [], scrapes = [], javascriptReturns = [], pdfs = []\<rparr>"

text \<open>\<open>for (const element of elements) await element.click()\<close>\<close>

fun click_each :: "('x, unit) io list \<Rightarrow> ('x world, unit) io" where
  "click_each [] = ret ()"
| "click_each (element_click # elements) =
     bnd (ext_call element_click) (\<lambda>_. click_each elements)"

definition make_pdfOptions :: "bool option \<Rightarrow> number option \<Rightarrow> string option \<Rightarrow> pdfOptions" where
  "make_pdfOptions action_landscape action_scale action_format =
     \<lparr>landscape = action_landscape,
      scale = action_scale,
      format = (case action_format of None \<Rightarrow> Some ''Letter'' | Some f \<Rightarrow> Some f)\<rparr>"

text \<open>
  One pass through the \<open>switch\<close>: the action runs on the page and returns the results, with
  what it captured pushed at the end of its sequence. Each branch pushes after its last
  call that can throw, so a branch that throws has pushed nothing.
\<close>

fun run_action :: "'x Platform \<Rightarrow> 'x Page \<Rightarrow> Action \<Rightarrow> ActionResults \<Rightarrow> ('x world, ActionResults) io" where
  "run_action P page (Wait milliseconds selector) results =
     bnd (if milliseconds \<noteq> None \<and> selector \<noteq> None
          then console_warn ''Wait action has both milliseconds and selector. Using milliseconds.''
          else ret ()) (\<lambda>_.
     bnd (case milliseconds of
            Some ms \<Rightarrow> ext_call (waitForTimeout page ms)
          | None \<Rightarrow>
              (case selector of
                 Some sel \<Rightarrow> ext_call (waitForSelector page sel 30000)
               | None \<Rightarrow> console_warn ''Wait action missing both milliseconds and selector'')) (\<lambda>_.
     ret results))"
| "run_action P page (Click selector all) results =
     bnd (if all = Some True
          then bnd (ext_call (locator_all page selector)) (\<lambda>elements. click_each elements)
          else ext_call (page_click page selector)) (\<lambda>_.
     ret results)"
| "run_action P page (Screenshot fullPage) results =
     bnd (takeScreenshot P page (case fullPage of None \<Rightarrow> False | Some b \<Rightarrow> b)) (\<lambda>shot.
     ret (results\<lparr>screenshots := screenshots results @ [shot]\<rparr>))"
| "run_action P page (Write text) results =
     bnd (ext_call (keyboard_type page text)) (\<lambda>_. ret results)"
| "run_action P page (Press key) results =
     bnd (ext_call (keyboard_press page key)) (\<lambda>_. ret results)"
| "run_action P page (Scroll direction selector) results =
     (let dir = (case direction of None \<Rightarrow> ''down'' | Some d \<Rightarrow> if truthy d then d else ''down'');
          scrollAmount = 500
      in bnd (case selector of
                Some sel \<Rightarrow>
                  if truthy sel
                  then ext_call (locator_scrollTop_add page sel
                         (if dir = ''down'' then scrollAmount else - scrollAmount))
                  else ext_call (window_scrollBy page 0
                         (if dir = ''down'' then scrollAmount else - scrollAmount))
              | None \<Rightarrow>
                  ext_call (window_scrollBy page 0
                    (if dir = ''down'' then scrollAmount else - scrollAmount))) (\<lambda>_.
         ret results))"
| "run_action P page Scrape results =
     bnd (ext_call (page_content page)) (\<lambda>html.
     bnd (\<lambda>w. (Inr (page_url page (ext w)), w)) (\<lambda>u.
     ret (results\<lparr>scrapes := scrapes results @ [\<lparr>scrape_url = u, scrape_html = html\<rparr>]\<rparr>)))"
| "run_action P page (ExecuteJavascript script) results =
     bnd (ext_call (evaluate page script)) (\<lambda>result.
     ret (results\<lparr>javascriptReturns := javascriptReturns results
            @ [\<lparr>return_type = js_typeof result, return_value = result\<rparr>]\<rparr>))"
| "run_action P page (Pdf action_landscape action_scale action_format) results =
     bnd (ext_call (page_pdf page (make_pdfOptions action_landscape action_scale action_format)))
       (\<lambda>pdfBuffer.
     ret (results\<lparr>pdfs := pdfs results @ [toString_base64 pdfBuffer]\<rparr>))"
| "run_action P page (Unknown tag) results =
     bnd (console_warn (''Unknown action type: '' @ tag)) (\<lambda>_. ret results)"

text \<open>
  The body of the \<open>for\<close> loop: the \<open>switch\<close> inside \<open>try\<close>, and the \<open>catch\<close> that writes the
  message of the fault and goes on with the results as they were.
\<close>

definition guarded_action :: "'x Platform \<Rightarrow> 'x Page \<Rightarrow> Action \<Rightarrow> ActionResults \<Rightarrow> ('x world, ActionResults) io" where
  "guarded_action P page action results =
     try_catch (run_action P page action results)
       (\<lambda>error. bnd (console_error (''Action failed: '' @ message error)) (\<lambda>_. ret results))"

fun action_loop :: "'x Platform \<Rightarrow> 'x Page \<Rightarrow> Action list \<Rightarrow> ActionResults \<Rightarrow> ('x world, ActionResults) io" where
  "action_loop P page [] results = ret results"
| "action_loop P page (action # rest) results =
     bnd (guarded_action P page action results) (\<lambda>results'. action_loop P page rest results')"

definition executeActions :: "'x Platform \<Rightarrow> 'x Page \<Rightarrow> Action list \<Rightarrow> ('x world, ActionResults) io" where
  "executeActions P page acts = action_loop P page acts empty_results"




section \<open>The route POST /scrape\<close>

text \<open>
  The handler runs on the state of the worker together with the semaphore of the module and
  a record of the sessions it opens and closes: an entry is written when \<open>newContext\<close>,
  \<open>newPage\<close>, \<open>page.close\<close> or \<open>context.close\<close> has returned, and when \<open>release\<close> has
  been called. The semaphore's callers are request numbers.
\<close>

datatype lifecycle = Context_opened | Page_opened | Page_closed | Context_closed | Permit_released

record 'x server =
  world :: "'x world"
  pageSemaphore :: "nat Semaphore"
  lifecycle :: "lifecycle list"

definition in_world :: "('x world, 'a) io \<Rightarrow> ('x server, 'a) io" where
  "in_world m = (\<lambda>sv. case m (world sv) of (r, w') \<Rightarrow> (r, sv\<lparr>world := w'\<rparr>))"

definition note_event :: "lifecycle \<Rightarrow> ('x server, unit) io" where
  "note_event e = (\<lambda>sv. (Inr (), sv\<lparr>lifecycle := lifecycle sv @ [e]\<rparr>))"

definition browser_call :: "lifecycle \<Rightarrow> ('x, 'a) io \<Rightarrow> ('x server, 'a) io" where
  "browser_call e m = bnd (in_world (ext_call m)) (\<lambda>a. bnd (note_event e) (\<lambda>_. ret a))"

definition release_permit :: "('x server, unit) io" where
  "release_permit =
     (\<lambda>sv. case release (pageSemaphore sv) of
             (woken, sem') \<Rightarrow>
               (Inr (), sv\<lparr>pageSemaphore := sem', lifecycle := lifecycle sv @ [Permit_released]\<rparr>))"

subsection \<open>createContext\<close>

definition proxy_of :: "'x Platform \<Rightarrow> proxyOptions option" where
  "proxy_of P =
     (case PROXY_SERVER P of
        None \<Rightarrow> None
      | Some srv \<Rightarrow>
          (case PROXY_USERNAME P of
             None \<Rightarrow> Some \<lparr>server = srv, username = None, password = None\<rparr>
           | Some user \<Rightarrow>
               (case PROXY_PASSWORD P of
                  None \<Rightarrow> Some \<lparr>server = srv, username = None, password = None\<rparr>
                | Some pw \<Rightarrow> Some \<lparr>server = srv, username = Some user, password = Some pw\<rparr>)))"

definition media_pattern :: string where
  "media_pattern = ''**/*.{png,jpg,jpeg,gif,svg,mp3,mp4,avi,flac,ogg,wav,webm}''"

definition createContext :: "'x Platform \<Rightarrow> bool \<Rightarrow> ('x server, 'x BrowserContext) io" where
  "createContext P skipTlsVerification =
     bnd (in_world (ext_call (UserAgent_toString P))) (\<lambda>ua.
     bnd (browser_call Context_opened
            (newContext P \<lparr>userAgent = ua, viewport = (1280, 800),
                            ignoreHTTPSErrors = skipTlsVerification, proxy = proxy_of P\<rparr>))
       (\<lambda>newCtx.
     bnd (if BLOCK_MEDIA P
          then in_world (ext_call (route newCtx media_pattern media_route_handler))
          else ret ()) (\<lambda>_.
     bnd (in_world (ext_call (route newCtx ''**/*'' (ad_route_handler (new_URL P))))) (\<lambda>_.
     ret newCtx))))"

subsection \<open>The response\<close>

record ScrapeResponse =
  json_content :: string
  pageStatusCode :: "int option"
  json_contentType :: "string option"
  json_screenshot :: "string option"
  json_actions :: "ActionResults option"
  pageError :: "string option"

datatype reply = Json_200 ScrapeResponse | Json_error nat string

definition flag :: "bool option \<Rightarrow> bool" where
  "flag b = (b = Some True)"

definition truthy_opt :: "string option \<Rightarrow> bool" where
  "truthy_opt s = (case s of None \<Rightarrow> False | Some t \<Rightarrow> truthy t)"

text \<open>\<open>result.status !== 200 ? getError(result.status) : undefined\<close>\<close>

definition page_error_of :: "'x Platform \<Rightarrow> int option \<Rightarrow> string option" where
  "page_error_of P st = (if st \<noteq> Some 200 then getError P st else None)"

text \<open>
  \<open>if (actionResults && actionResults.screenshots.length > 0)
      actionResults.screenshots.unshift(screenshotData)\<close>
\<close>

definition unshift_screenshot :: "string \<Rightarrow> ActionResults option \<Rightarrow> ActionResults option" where
  "unshift_screenshot screenshotData actionResults =
     (case actionResults of
        None \<Rightarrow> None
      | Some r \<Rightarrow>
          (if screenshots r \<noteq> [] then Some (r\<lparr>screenshots := screenshotData # screenshots r\<rparr>)
           else Some r))"

text \<open>\<open>if (screenshotData && !actionResults) actionResults = { screenshots: [screenshotData], ... }\<close>\<close>

definition lone_screenshot :: "string option \<Rightarrow> ActionResults option \<Rightarrow> ActionResults option" where
  "lone_screenshot screenshotData actionResults =
     (case screenshotData of
        None \<Rightarrow> actionResults
      | Some shot \<Rightarrow>
          (if truthy shot \<and> actionResults = None
           then Some (empty_results\<lparr>screenshots := [shot]\<rparr>)
           else actionResults))"

definition has_output :: "ActionResults \<Rightarrow> bool" where
  "has_output r =
     (screenshots r \<noteq> [] \<or> scrapes r \<noteq> [] \<or> javascriptReturns r \<noteq> [] \<or> pdfs r \<noteq> [])"

definition response_body_of ::
  "ScrapeOutcome \<Rightarrow> string option \<Rightarrow> ActionResults option \<Rightarrow> string option \<Rightarrow> ScrapeResponse" where
  "response_body_of result screenshotData actionResults page_error =
     \<lparr>json_content = content result,
      pageStatusCode = status result,
      json_contentType = contentType result,
      json_screenshot = (if truthy_opt screenshotData then screenshotData else None),
      json_actions = (case actionResults of
                        None \<Rightarrow> None
                      | Some r \<Rightarrow> if has_output r then Some r else None),
      pageError = (if truthy_opt page_error then page_error else None)\<rparr>"

subsection \<open>The body of the try block, once the page exists\<close>

text \<open>Extra headers, the navigation, and the actions when the list is not empty.\<close>

definition navigate_and_act ::
  "'x Platform \<Rightarrow> UrlModel \<Rightarrow> 'x Page \<Rightarrow> ('x world, ScrapeOutcome \<times> ActionResults option) io" where
  "navigate_and_act P req page =
     bnd (case headers req of
            None \<Rightarrow> ret ()
          | Some hs \<Rightarrow> ext_call (setExtraHTTPHeaders page hs)) (\<lambda>_.
     bnd (scrapePage P page (url req) Load
            (case wait_after_load req of None \<Rightarrow> 0 | Some n \<Rightarrow> n)
            (case timeout req of None \<Rightarrow> 15000 | Some n \<Rightarrow> n)
            (check_selector req)) (\<lambda>result.
     bnd (case actions req of
            None \<Rightarrow> ret None
          | Some [] \<Rightarrow> ret None
          | Some (a # as) \<Rightarrow> bnd (executeActions P page (a # as)) (\<lambda>r. ret (Some r)))
       (\<lambda>actionResults.
     ret (result, actionResults))))"

text \<open>The screenshot asked for by the flags of the request.\<close>

definition top_level_screenshot ::
  "'x Platform \<Rightarrow> UrlModel \<Rightarrow> 'x Page \<Rightarrow> ActionResults option
     \<Rightarrow> ('x world, string option \<times> ActionResults option) io" where
  "top_level_screenshot P req page actionResults =
     (if flag (screenshot req) \<or> flag (full_page_screenshot req)
      then bnd (takeScreenshot P page (flag (full_page_screenshot req))) (\<lambda>shot.
           ret (Some shot, unshift_screenshot shot actionResults))
      else ret (None, actionResults))"

definition render :: "'x Platform \<Rightarrow> UrlModel \<Rightarrow> 'x Page \<Rightarrow> ('x world, ScrapeResponse) io" where
  "render P req page =
     bnd (navigate_and_act P req page) (\<lambda>(result, actionResults).
     bnd (top_level_screenshot P req page actionResults) (\<lambda>(screenshotData, actionResults').
     ret (response_body_of result screenshotData
            (lone_screenshot screenshotData actionResults')
            (page_error_of P (status result)))))"

subsection \<open>try, catch, finally\<close>

text \<open>
  The \<open>try\<close> block, with the two variables the \<open>finally\<close> block reads: they keep what was
  assigned before a fault.
\<close>

definition scrape_try ::
  "'x Platform \<Rightarrow> UrlModel \<Rightarrow> 'x server
     \<Rightarrow> ('x BrowserContext option \<times> 'x Page option \<times> (fault + ScrapeResponse)) \<times> 'x server" where
  "scrape_try P req sv =
     (case createContext P (flag (skip_tls_verification req)) sv of
        (Inl e, sv1) \<Rightarrow> ((None, None, Inl e), sv1)
      | (Inr requestContext, sv1) \<Rightarrow>
          (case browser_call Page_opened (newPage requestContext) sv1 of
             (Inl e, sv2) \<Rightarrow> ((Some requestContext, None, Inl e), sv2)
           | (Inr page, sv2) \<Rightarrow>
               (case in_world (render P req page) sv2 of
                  (r, sv3) \<Rightarrow> ((Some requestContext, Some page, r), sv3))))"

definition scrape_catch :: "fault + ScrapeResponse \<Rightarrow> 'x server \<Rightarrow> reply \<times> 'x server" where
  "scrape_catch r sv =
     (case r of
        Inr body \<Rightarrow> (Json_200 body, sv)
      | Inl error \<Rightarrow>
          (Json_error 500 ''An error occurred while fetching the page.'',
           snd (in_world (console_error (''Scrape error: '' @ message error)) sv)))"

definition scrape_finally :: "'x BrowserContext option \<Rightarrow> 'x Page option \<Rightarrow> ('x server, unit) io" where
  "scrape_finally requestContext page =
     bnd (case page of
            None \<Rightarrow> ret ()
          | Some p \<Rightarrow> browser_call Page_closed (page_close p)) (\<lambda>_.
     bnd (case requestContext of
            None \<Rightarrow> ret ()
          | Some c \<Rightarrow> browser_call Context_closed (context_close c)) (\<lambda>_.
     release_permit))"

text \<open>
  The handler from the line after \<open>await pageSemaphore.acquire()\<close> on. It has sent its reply
  when the \<open>finally\<close> block runs; a fault of that block escapes the handler (\<open>escaped\<close>).
\<close>

record outcome =
  sent :: reply
  escaped :: "fault option"

definition scrape_admitted :: "'x Platform \<Rightarrow> UrlModel \<Rightarrow> 'x server \<Rightarrow> outcome \<times> 'x server" where
  "scrape_admitted P req sv =
     (case scrape_try P req sv of
        ((requestContext, page, r), sv1) \<Rightarrow>
          (case scrape_catch r sv1 of
             (rep, sv2) \<Rightarrow>
               (case scrape_finally requestContext page sv2 of
                  (Inl e, sv3) \<Rightarrow> (\<lparr>sent = rep, escaped = Some e\<rparr>, sv3)
                | (Inr _, sv3) \<Rightarrow> (\<lparr>sent = rep, escaped = None\<rparr>, sv3))))"

text \<open>The checks before admission. A request without \<open>url\<close> has the empty string here.\<close>

definition isValidUrl :: "'x Platform \<Rightarrow> string \<Rightarrow> bool" where
  "isValidUrl P urlString = (case new_URL P urlString of Inl _ \<Rightarrow> False | Inr _ \<Rightarrow> True)"

definition scrape_precheck :: "'x Platform \<Rightarrow> UrlModel \<Rightarrow> reply option" where
  "scrape_precheck P req =
     (if \<not> truthy (url req) then Some (Json_error 400 ''URL is required'')
      else if \<not> isValidUrl P (url req) then Some (Json_error 400 ''Invalid URL'')
      else None)"

subsection \<open>The route GET /health\<close>




subsection \<open>Requests sharing the semaphore\<close>






section \<open>A scripted browser\<close>

text \<open>
  A browser for running the service on concrete requests. Its environment is the list of the
  calls made so far. The methods named in \<open>broken\<close> throw (\<open>fullPage\<close> breaks only the
  full-page screenshot), a click on \<open>#missing\<close> and a script \<open>throw\<close> throw as well; a
  navigation answers with status 200 and the given headers, or with no response at all.
\<close>

definition demo_bytes :: "string \<Rightarrow> byte list" where
  "demo_bytes s = map (\<lambda>c. of_nat (of_char c)) s"

definition demo_utf8 :: "byte list \<Rightarrow> string" where
  "demo_utf8 bs = map (\<lambda>b. char_of (unat b)) bs"

definition demo_op :: "string set \<Rightarrow> string \<Rightarrow> 'a \<Rightarrow> (string list, 'a) io" where
  "demo_op broken name a =
     (\<lambda>x. if name \<in> broken then (Inl (JsError (name @ '' failed'')), x @ [name])
          else (Inr a, x @ [name]))"

definition demo_response :: "(string \<times> string) list \<Rightarrow> string list Response" where
  "demo_response hs =
     \<lparr>response_status = 200,
      allHeaders = (\<lambda>x. (Inr hs, x @ [''allHeaders''])),
      response_body = (\<lambda>x. (Inr (demo_bytes ''[1,2]''), x @ [''body'']))\<rparr>"

definition demo_page :: "string set \<Rightarrow> (string \<times> string) list option \<Rightarrow> string list Page" where
  "demo_page broken hs =
     \<lparr>goto = (\<lambda>u wu tmo. demo_op broken ''goto'' (map_option demo_response hs)),
      waitForTimeout = (\<lambda>ms. demo_op broken ''waitForTimeout'' ()),
      waitForSelector = (\<lambda>sel tmo. demo_op (if sel = ''#missing'' then {''waitForSelector''} else {})
                                      ''waitForSelector'' ()),
      page_content = demo_op broken ''content'' ''<html></html>'',
      page_url = (\<lambda>x. ''https://example.com/''),
      page_screenshot = (\<lambda>fullPage. demo_op (if fullPage \<and> ''fullPage'' \<in> broken
                                                then {''screenshot''} else broken)
                                              ''screenshot''
                                              (demo_bytes (if fullPage then ''FULL'' else ''PNG''))),
      locator_all = (\<lambda>sel. demo_op broken ''locator.all''
                               [demo_op broken ''element.click'' (), demo_op broken ''element.click'' ()]),
      page_click = (\<lambda>sel. demo_op (if sel = ''#missing'' then {''click''} else {}) ''click'' ()),
      keyboard_type = (\<lambda>text. demo_op broken ''type'' ()),
      keyboard_press = (\<lambda>key. demo_op broken ''press'' ()),
      locator_scrollTop_add = (\<lambda>sel delta. demo_op broken ''scrollTop'' ()),
      window_scrollBy = (\<lambda>dx dy. demo_op broken ''scrollBy'' ()),
      evaluate = (\<lambda>script. demo_op (if script = ''throw'' then {''evaluate''} else {})
                                ''evaluate'' (JSNumber 42)),
      page_pdf = (\<lambda>opts. demo_op broken ''pdf'' (demo_bytes ''%PDF'')),
      setExtraHTTPHeaders = (\<lambda>hs. demo_op broken ''setExtraHTTPHeaders'' ()),
      page_close = demo_op broken ''page.close'' ()\<rparr>"

definition demo_context :: "string set \<Rightarrow> (string \<times> string) list option \<Rightarrow> string list BrowserContext" where
  "demo_context broken hs =
     \<lparr>route = (\<lambda>pattern handler. demo_op broken ''route'' ()),
      newPage = demo_op broken ''newPage'' (demo_page broken hs),
      context_close = demo_op broken ''context.close'' ()\<rparr>"

text \<open>
  Modelled from the spec: \<open>getError\<close>, the status table of \<open>./helpers/get_error\<close>: no
  status is a navigation failure, 4xx a client-style and 5xx a server-style page error.
\<close>

definition demo_getError :: "int option \<Rightarrow> string option" where
  "demo_getError st =
     (case st of
        None \<Rightarrow> Some ''Navigation failed''
      | Some n \<Rightarrow>
          if 400 \<le> n \<and> n < 500 then Some ''Client error''
          else if 500 \<le> n \<and> n < 600 then Some ''Server error''
          else None)"

definition demo_platform :: "string set \<Rightarrow> (string \<times> string) list option \<Rightarrow> string list Platform" where
  "demo_platform broken hs =
     \<lparr>newContext = (\<lambda>opts. demo_op broken ''newContext'' (demo_context broken hs)),
      UserAgent_toString = demo_op broken ''UserAgent'' ''Mozilla/5.0'',
      new_URL = basic_URL,
      Date_toISOString = (\<lambda>x. ''2024-01-02T03:04:05.678Z''),
      toString_utf8 = demo_utf8,
      getError = demo_getError,
      BLOCK_MEDIA = False,
      PROXY_SERVER = None,
      PROXY_USERNAME = None,
      PROXY_PASSWORD = None,
      SCREENSHOTS_DIR = ''/srv/screenshots''\<rparr>"

definition demo_world :: "string list world" where
  "demo_world = \<lparr>ext = [], console = [], dirs = {}, files = Map.empty\<rparr>"

definition demo_server :: "string list server" where
  "demo_server =
     \<lparr>world = demo_world, pageSemaphore = \<lparr>permits = 9, queue = []\<rparr>, lifecycle = []\<rparr>"

definition demo_request :: UrlModel where
  "demo_request =
     \<lparr>url = ''https://example.com/'', wait_after_load = None, timeout = None, headers = None,
      check_selector = None, skip_tls_verification = None, actions = None,
      screenshot = None, full_page_screenshot = None\<rparr>"

section \<open>Properties of the admission controller\<close>









section \<open>Sequencing\<close>

lemma bnd_apply:
  "bnd m f s = (case m s of (Inl e, s') \<Rightarrow> (Inl e, s') | (Inr a, s') \<Rightarrow> f a s')"
  by (simp add: bnd_def)


lemma bnd_throws: "m s = (Inl e, s') \<Longrightarrow> bnd m f s = (Inl e, s')"
  by (simp add: bnd_def)

lemma bnd_ret: "bnd (ret a) f = f a"
  by (simp add: bnd_def ret_def)

lemma ret_apply: "ret a s = (Inr a, s)"
  by (simp add: ret_def)

lemma throw_apply: "throw e s = (Inl e, s)"
  by (simp add: throw_def)

lemma try_catch_returns: "m s = (Inr a, s') \<Longrightarrow> try_catch m h s = (Inr a, s')"
  by (simp add: try_catch_def)

lemma try_catch_throws: "m s = (Inl e, s') \<Longrightarrow> try_catch m h s = h e s'"
  by (simp add: try_catch_def)

lemma ext_call_apply:
  "ext_call m w = (case m (ext w) of (r, x') \<Rightarrow> (r, w\<lparr>ext := x'\<rparr>))"
  by (simp add: ext_call_def)

lemma ext_call_result: "m (ext w) = (r, x') \<Longrightarrow> ext_call m w = (r, w\<lparr>ext := x'\<rparr>)"
  by (simp add: ext_call_def)

section \<open>Properties of the network policy filter\<close>

lemma str_includes_sublist: "str_includes s d = sublist d s"
  by (induction s) (simp_all add: sublist_Cons_right)

lemma str_includes_iff: "str_includes s d \<longleftrightarrow> (\<exists>before after. s = before @ d @ after)"
  by (simp add: str_includes_sublist sublist_def)

text \<open>
  Claim C5, as stated, fails: the handler calls the \<open>URL\<close> constructor outside any \<open>try\<close>,
  so for a request URL that the constructor rejects it throws instead of letting the request
  continue.
\<close>

theorem ad_route_handler_malformed_url_throws:
  "basic_URL ''not a url'' = Inl (JsError ''Invalid URL'')
   \<and> ad_route_handler basic_URL ''not a url'' = Inl (JsError ''Invalid URL'')
   \<and> ad_route_handler basic_URL ''not a url'' \<noteq> Inr Continue"
  by code_simp

text \<open>
  Claim C5, amended. For every intercepted request whose URL the constructor parses, the
  handler throws nothing and decides: abort when the host name contains an entry of the
  deny-list as a substring, continue otherwise. When the constructor throws, the handler
  throws the same fault and decides nothing.
\<close>

theorem ad_route_handler_decides:
  "(mk_URL request_url = Inr parsed \<longrightarrow>
      ad_route_handler mk_URL request_url =
        Inr (if \<exists>domain \<in> set AD_SERVING_DOMAINS. \<exists>before after. hostname parsed = before @ domain @ after
             then Abort else Continue))
   \<and> (mk_URL request_url = Inl e \<longrightarrow> ad_route_handler mk_URL request_url = Inl e)"
  by (simp add: ad_route_handler_def list_ex_iff str_includes_iff)

theorem ad_route_handler_decides_witness:
  "basic_URL ''https://Ads.DoubleClick.net/x.js'' = Inr \<lparr>hostname = ''ads.doubleclick.net''\<rparr>
   \<and> ad_route_handler basic_URL ''https://Ads.DoubleClick.net/x.js'' = Inr Abort
   \<and> basic_URL ''https://example.com/'' = Inr \<lparr>hostname = ''example.com''\<rparr>
   \<and> ad_route_handler basic_URL ''https://example.com/'' = Inr Continue
   \<and> basic_URL '''' = Inl (JsError ''Invalid URL'')
   \<and> ad_route_handler basic_URL '''' = Inl (JsError ''Invalid URL'')"
proof -
  have p1: "basic_URL ''https://Ads.DoubleClick.net/x.js'' = Inr \<lparr>hostname = ''ads.doubleclick.net''\<rparr>"
    by code_simp
  have p2: "basic_URL ''https://example.com/'' = Inr \<lparr>hostname = ''example.com''\<rparr>"
    by code_simp
  have p3: "basic_URL '''' = Inl (JsError ''Invalid URL'')"
    by code_simp
  have d1: "\<exists>domain \<in> set AD_SERVING_DOMAINS. \<exists>before after.
      hostname \<lparr>hostname = ''ads.doubleclick.net''\<rparr> = before @ domain @ after"
    unfolding str_includes_iff [symmetric] list_ex_iff [symmetric] by code_simp
  have d2: "\<not> (\<exists>domain \<in> set AD_SERVING_DOMAINS. \<exists>before after.
      hostname \<lparr>hostname = ''example.com''\<rparr> = before @ domain @ after)"
    unfolding str_includes_iff [symmetric] list_ex_iff [symmetric] by code_simp
  from ad_route_handler_decides [of basic_URL "''https://Ads.DoubleClick.net/x.js''"
      "\<lparr>hostname = ''ads.doubleclick.net''\<rparr>"] p1 d1
  have a1: "ad_route_handler basic_URL ''https://Ads.DoubleClick.net/x.js'' = Inr Abort"
    by simp
  from ad_route_handler_decides [of basic_URL "''https://example.com/''"
      "\<lparr>hostname = ''example.com''\<rparr>"] p2 d2
  have a2: "ad_route_handler basic_URL ''https://example.com/'' = Inr Continue"
    by simp
  from ad_route_handler_decides [of basic_URL "''''" _ "JsError ''Invalid URL''"] p3
  have a3: "ad_route_handler basic_URL '''' = Inl (JsError ''Invalid URL'')"
    by simp
  from p1 p2 p3 a1 a2 a3 show ?thesis by blast
qed

section \<open>Properties of the pdf action\<close>

text \<open>
  Claim C9. The options of a \<open>pdf\<close> action carry the format of the action, or \<open>Letter\<close>
  when the action has none; \<open>landscape\<close> and \<open>scale\<close> are in the options exactly when the
  action has them, unchanged, and absent otherwise. The action calls the renderer once,
  with these options, and pushes the base64 text of what the renderer returns.
\<close>

theorem pdf_action_options:
  "make_pdfOptions action_landscape action_scale action_format =
     \<lparr>landscape = action_landscape, scale = action_scale,
      format = Some (case action_format of None \<Rightarrow> ''Letter'' | Some f \<Rightarrow> f)\<rparr>
   \<and> run_action P page (Pdf action_landscape action_scale action_format) results w =
       (case page_pdf page (make_pdfOptions action_landscape action_scale action_format) (ext w) of
          (Inl e, x') \<Rightarrow> (Inl e, w\<lparr>ext := x'\<rparr>)
        | (Inr pdfBuffer, x') \<Rightarrow>
            (Inr (results\<lparr>pdfs := pdfs results @ [toString_base64 pdfBuffer]\<rparr>), w\<lparr>ext := x'\<rparr>))"
  by (auto simp: make_pdfOptions_def bnd_def ret_def ext_call_def
           split: option.splits prod.splits sum.splits)

section \<open>Properties of the base64 text\<close>

lemma base64_alphabet_distinct: "distinct base64_alphabet"
  by code_simp

lemma base64_alphabet_length: "length base64_alphabet = 64"
  by code_simp

lemma base64_no_pad: "CHR ''='' \<notin> set base64_alphabet"
  by code_simp

lemma index_nth: "distinct xs \<Longrightarrow> i < length xs \<Longrightarrow> length (takeWhile (\<lambda>d. d \<noteq> xs ! i) xs) = i"
proof (induction xs arbitrary: i)
  case Nil
  then show ?case by simp
next
  case (Cons x xs)
  then show ?case by (cases i) auto
qed

lemma base64_index_char: "base64_index (base64_char n) = n mod 64"
  unfolding base64_index_def base64_char_def
  by (rule index_nth) (simp_all add: base64_alphabet_distinct base64_alphabet_length)

lemma base64_char_not_pad: "base64_char n \<noteq> CHR ''=''"
proof -
  have "base64_char n \<in> set base64_alphabet"
    unfolding base64_char_def by (rule nth_mem) (simp add: base64_alphabet_length)
  with base64_no_pad show ?thesis by auto
qed

lemma byte_bound: "unat (a :: byte) < 256"
  using unsigned_less [of a] by simp



lemma mul_add_div: "r < k \<Longrightarrow> (q * k + r) div k = (q::nat)"
  by simp

lemma mul_add_mod: "r < k \<Longrightarrow> (q * k + r) mod k = (r::nat)"
  by simp

lemma sextets:
  fixes a b c :: nat
  assumes "a < 256" "b < 256" "c < 256"
  shows "a div 4 mod 64 = a div 4"
    and "(a mod 4 * 16 + b div 16) mod 64 = a mod 4 * 16 + b div 16"
    and "(b mod 16 * 4 + c div 64) mod 64 = b mod 16 * 4 + c div 64"
    and "a mod 4 * 16 mod 64 = a mod 4 * 16"
    and "b mod 16 * 4 mod 64 = b mod 16 * 4"
    and "b div 16 < 16" and "c div 64 < 4"
proof -
  from assms show d: "b div 16 < 16" "c div 64 < 4" by (simp_all add: div_less_iff_less_mult)
  from assms have "a div 4 < 64" by (simp add: div_less_iff_less_mult)
  then show "a div 4 mod 64 = a div 4" by simp
  have m: "a mod 4 < 4" "b mod 16 < 16" by simp_all
  from m d have "a mod 4 * 16 + b div 16 < 64" "b mod 16 * 4 + c div 64 < 64"
    "a mod 4 * 16 < 64" "b mod 16 * 4 < 64"
    by linarith+
  then show "(a mod 4 * 16 + b div 16) mod 64 = a mod 4 * 16 + b div 16"
    "(b mod 16 * 4 + c div 64) mod 64 = b mod 16 * 4 + c div 64"
    "a mod 4 * 16 mod 64 = a mod 4 * 16"
    "b mod 16 * 4 mod 64 = b mod 16 * 4"
    by simp_all
qed

lemma base64_roundtrip: "fromString_base64 (toString_base64 bs) = bs"
proof (induction bs rule: toString_base64.induct)
  case 1
  show ?case by simp
next
  case (2 a)
  note s = sextets [OF byte_bound [of a] byte_bound [of a] byte_bound [of a]]
  have first: "base64_index (base64_char (unat a div 4)) * 4
      + base64_index (base64_char (unat a mod 4 * 16)) div 16 = unat a"
    by (simp add: base64_index_char s mul_add_div)
  show ?case
    by (simp add: Let_def first base64_char_not_pad del: of_nat_add of_nat_mult)
next
  case (3 a b)
  note s = sextets [OF byte_bound [of a] byte_bound [of b] byte_bound [of b]]
  have first: "base64_index (base64_char (unat a div 4)) * 4
      + base64_index (base64_char (unat a mod 4 * 16 + unat b div 16)) div 16 = unat a"
    by (simp add: base64_index_char s mul_add_div)
  have second: "base64_index (base64_char (unat a mod 4 * 16 + unat b div 16)) mod 16 * 16
      + base64_index (base64_char (unat b mod 16 * 4)) div 4 = unat b"
    by (simp add: base64_index_char s mul_add_div mul_add_mod)
  show ?case
    by (simp add: Let_def first second base64_char_not_pad del: of_nat_add of_nat_mult)
next
  case (4 a b c rest)
  note s = sextets [OF byte_bound [of a] byte_bound [of b] byte_bound [of c]]
  have first: "base64_index (base64_char (unat a div 4)) * 4
      + base64_index (base64_char (unat a mod 4 * 16 + unat b div 16)) div 16 = unat a"
    by (simp add: base64_index_char s mul_add_div)
  have second: "base64_index (base64_char (unat a mod 4 * 16 + unat b div 16)) mod 16 * 16
      + base64_index (base64_char (unat b mod 16 * 4 + unat c div 64)) div 4 = unat b"
    by (simp add: base64_index_char s mul_add_div mul_add_mod)
  have third: "base64_index (base64_char (unat b mod 16 * 4 + unat c div 64)) mod 4 * 64
      + base64_index (base64_char (unat c mod 64)) = unat c"
    by (simp add: base64_index_char s mul_add_mod)
  show ?case
    using 4
    by (simp add: Let_def first second third base64_char_not_pad del: of_nat_add of_nat_mult)
qed

section \<open>Properties of takeScreenshot\<close>

lemma dropWhile_upto: "x \<notin> set xs \<Longrightarrow> dropWhile (\<lambda>c. c \<noteq> x) (xs @ x # ys) = x # ys"
  by (induction xs) auto

lemma dirname_path_join: "CHR ''/'' \<notin> set name \<Longrightarrow> dirname (path_join dir name) = dir"
  using dropWhile_upto [of "CHR ''/''" "rev name" "rev dir"]
  by (simp add: dirname_def path_join_def)

lemma dirname_screenshot_filepath:
  "CHR ''/'' \<notin> set stamp \<Longrightarrow> dirname (screenshot_filepath P stamp) = SCREENSHOTS_DIR P"
  unfolding screenshot_filepath_def
  by (rule dirname_path_join) (auto simp: replace_colons_dots_def)

lemma screenshot_filepath_not_dir: "screenshot_filepath P stamp \<noteq> SCREENSHOTS_DIR P"
  by (simp add: screenshot_filepath_def path_join_def)

text \<open>The file-system part of \<open>takeScreenshot\<close>, after the browser has returned the image.\<close>

lemma takeScreenshot_after_capture:
  assumes shot: "page_screenshot page fullPage (ext w) = (Inr png, x')"
  shows "takeScreenshot P page fullPage w =
           (let dir = SCREENSHOTS_DIR P;
                w1 = w\<lparr>ext := x'\<rparr>;
                filepath = screenshot_filepath P (Date_toISOString P x')
            in if \<not> existsSync dir w1 \<and> files w1 dir \<noteq> None then (Inl (JsError ''EEXIST''), w1)
               else (let w2 = (if existsSync dir w1 then w1 else w1\<lparr>dirs := insert dir (dirs w1)\<rparr>)
                     in if filepath \<in> dirs w2 then (Inl (JsError ''EISDIR''), w2)
                        else if dirname filepath \<notin> dirs w2 then (Inl (JsError ''ENOENT''), w2)
                        else (Inr (toString_base64 png), w2\<lparr>files := (files w2)(filepath \<mapsto> png)\<rparr>)))"
  using shot
  by (simp add: takeScreenshot_def bnd_apply ext_call_apply ret_apply mkdirSync_def
        writeFileSync_def existsSync_def Let_def)

lemma takeScreenshot_capture_fault:
  "page_screenshot page fullPage (ext w) = (Inl e, x') \<Longrightarrow>
   takeScreenshot P page fullPage w = (Inl e, w\<lparr>ext := x'\<rparr>)"
  by (simp add: takeScreenshot_def bnd_apply ext_call_apply)

lemma takeScreenshot_returned:
  assumes stamps: "\<And>x. CHR ''/'' \<notin> set (Date_toISOString P x)"
      and ok: "takeScreenshot P page fullPage w = (Inr shot, w')"
  shows "\<exists>png. page_screenshot page fullPage (ext w) = (Inr png, ext w')
           \<and> shot = toString_base64 png
           \<and> fromString_base64 shot = png
           \<and> files w' (screenshot_filepath P (Date_toISOString P (ext w'))) = Some png
           \<and> dirs w' = insert (SCREENSHOTS_DIR P) (dirs w)
           \<and> console w' = console w"
proof (cases "page_screenshot page fullPage (ext w)")
  case (Pair r x')
  show ?thesis
  proof (cases r)
    case (Inl e)
    with Pair ok show ?thesis by (simp add: takeScreenshot_capture_fault)
  next
    case (Inr png)
    with Pair have shot: "page_screenshot page fullPage (ext w) = (Inr png, x')" by simp
    have dn: "dirname (screenshot_filepath P (Date_toISOString P x')) = SCREENSHOTS_DIR P"
      by (rule dirname_screenshot_filepath) (rule stamps)
    from ok show ?thesis
      unfolding takeScreenshot_after_capture [OF shot]
      by (auto simp: Let_def dn shot existsSync_def insert_absorb base64_roundtrip split: if_splits)
  qed
qed

text \<open>
  Claim C10. When \<open>takeScreenshot\<close> returns, the string it returns is the base64 text of
  the bytes the browser captured (decoding it gives these bytes back), these bytes are the
  content of the file named after the time stamp in the screenshots directory, and that
  directory exists (it is created when it was not there). The capture of a \<open>screenshot\<close> action and the capture asked for by
  the flags of the request both go through it. And it does return once the browser has
  captured the image, unless the directory's name is taken by a file or the file's name by
  a directory. Time stamps have no slash.
\<close>

theorem takeScreenshot_saves_what_it_returns:
  assumes stamps: "\<And>x. CHR ''/'' \<notin> set (Date_toISOString P x)"
  shows "(takeScreenshot P page fullPage w = (Inr shot, w') \<longrightarrow>
            (\<exists>png. page_screenshot page fullPage (ext w) = (Inr png, ext w')
               \<and> shot = toString_base64 png
               \<and> fromString_base64 shot = png
               \<and> files w' (screenshot_filepath P (Date_toISOString P (ext w'))) = Some png
               \<and> dirs w' = insert (SCREENSHOTS_DIR P) (dirs w)))
       \<and> (run_action P page (Screenshot action_fullPage) results w = (Inr results', w') \<longrightarrow>
            (\<exists>png. screenshots results' = screenshots results @ [toString_base64 png]
               \<and> files w' (screenshot_filepath P (Date_toISOString P (ext w'))) = Some png
               \<and> SCREENSHOTS_DIR P \<in> dirs w'))
       \<and> (top_level_screenshot P req page actionResults w = (Inr (Some shot, actionResults'), w') \<longrightarrow>
            (\<exists>png. shot = toString_base64 png
               \<and> files w' (screenshot_filepath P (Date_toISOString P (ext w'))) = Some png
               \<and> SCREENSHOTS_DIR P \<in> dirs w'))
       \<and> (page_screenshot page fullPage (ext w) = (Inr png, x')
            \<and> files w (SCREENSHOTS_DIR P) = None
            \<and> screenshot_filepath P (Date_toISOString P x') \<notin> dirs w \<longrightarrow>
            fst (takeScreenshot P page fullPage w) = Inr (toString_base64 png))"
proof -
  have direct: "takeScreenshot P page fullPage w = (Inr shot, w') \<longrightarrow>
      (\<exists>png. page_screenshot page fullPage (ext w) = (Inr png, ext w')
         \<and> shot = toString_base64 png
         \<and> fromString_base64 shot = png
         \<and> files w' (screenshot_filepath P (Date_toISOString P (ext w'))) = Some png
         \<and> dirs w' = insert (SCREENSHOTS_DIR P) (dirs w))"
    using takeScreenshot_returned [OF stamps] by blast
  have action: "run_action P page (Screenshot action_fullPage) results w = (Inr results', w') \<longrightarrow>
      (\<exists>png. screenshots results' = screenshots results @ [toString_base64 png]
         \<and> files w' (screenshot_filepath P (Date_toISOString P (ext w'))) = Some png
         \<and> SCREENSHOTS_DIR P \<in> dirs w')"
  proof
    assume run: "run_action P page (Screenshot action_fullPage) results w = (Inr results', w')"
    let ?fp = "case action_fullPage of None \<Rightarrow> False | Some b \<Rightarrow> b"
    from run obtain s where t: "takeScreenshot P page ?fp w = (Inr s, w')"
      and r: "results' = results\<lparr>screenshots := screenshots results @ [s]\<rparr>"
      by (auto simp: bnd_apply ret_apply split: prod.splits sum.splits)
    from takeScreenshot_returned [OF stamps t] r
    show "\<exists>png. screenshots results' = screenshots results @ [toString_base64 png]
         \<and> files w' (screenshot_filepath P (Date_toISOString P (ext w'))) = Some png
         \<and> SCREENSHOTS_DIR P \<in> dirs w'"
      by auto
  qed
  have top: "top_level_screenshot P req page actionResults w = (Inr (Some shot, actionResults'), w') \<longrightarrow>
      (\<exists>png. shot = toString_base64 png
         \<and> files w' (screenshot_filepath P (Date_toISOString P (ext w'))) = Some png
         \<and> SCREENSHOTS_DIR P \<in> dirs w')"
  proof
    assume run: "top_level_screenshot P req page actionResults w = (Inr (Some shot, actionResults'), w')"
    then have t: "takeScreenshot P page (flag (full_page_screenshot req)) w = (Inr shot, w')"
      by (auto simp: top_level_screenshot_def bnd_apply ret_apply split: if_splits prod.splits sum.splits)
    from takeScreenshot_returned [OF stamps t]
    show "\<exists>png. shot = toString_base64 png
         \<and> files w' (screenshot_filepath P (Date_toISOString P (ext w'))) = Some png
         \<and> SCREENSHOTS_DIR P \<in> dirs w'"
      by auto
  qed
  have returns: "page_screenshot page fullPage (ext w) = (Inr png, x')
      \<and> files w (SCREENSHOTS_DIR P) = None
      \<and> screenshot_filepath P (Date_toISOString P x') \<notin> dirs w \<longrightarrow>
      fst (takeScreenshot P page fullPage w) = Inr (toString_base64 png)"
  proof
    assume a: "page_screenshot page fullPage (ext w) = (Inr png, x')
      \<and> files w (SCREENSHOTS_DIR P) = None
      \<and> screenshot_filepath P (Date_toISOString P x') \<notin> dirs w"
    have dn: "dirname (screenshot_filepath P (Date_toISOString P x')) = SCREENSHOTS_DIR P"
      by (rule dirname_screenshot_filepath) (rule stamps)
    from a have shot: "page_screenshot page fullPage (ext w) = (Inr png, x')" by simp
    from a show "fst (takeScreenshot P page fullPage w) = Inr (toString_base64 png)"
      unfolding takeScreenshot_after_capture [OF shot]
      by (auto simp: Let_def dn existsSync_def screenshot_filepath_not_dir)
  qed
  from direct action top returns show ?thesis by blast
qed

theorem takeScreenshot_saves_what_it_returns_witness:
  "(\<forall>x. CHR ''/'' \<notin> set (Date_toISOString (demo_platform {} None) x))
   \<and> fst (takeScreenshot (demo_platform {} None) (demo_page {} None) False demo_world) = Inr ''UE5H''
   \<and> toString_base64 (demo_bytes ''PNG'') = ''UE5H''
   \<and> fromString_base64 ''UE5H'' = demo_bytes ''PNG''
   \<and> files (snd (takeScreenshot (demo_platform {} None) (demo_page {} None) False demo_world))
        ''/srv/screenshots/screenshot-2024-01-02T03-04-05-678Z.png'' = Some (demo_bytes ''PNG'')
   \<and> dirs (snd (takeScreenshot (demo_platform {} None) (demo_page {} None) False demo_world)) =
        {''/srv/screenshots''}"
proof -
  let ?P = "demo_platform {} None" and ?page = "demo_page {} None"
  let ?r = "takeScreenshot ?P ?page False demo_world"
  have stamps: "\<And>x. CHR ''/'' \<notin> set (Date_toISOString ?P x)"
    by (simp add: demo_platform_def)
  have shot: "fst ?r = Inr ''UE5H''"
    by code_simp
  then have run: "?r = (Inr ''UE5H'', snd ?r)"
    by (simp add: prod_eq_iff)
  have capture: "page_screenshot ?page False (ext demo_world) = (Inr (demo_bytes ''PNG''), [''screenshot''])"
    by (simp add: demo_page_def demo_op_def demo_world_def)
  have path: "screenshot_filepath ?P (Date_toISOString ?P (ext (snd ?r))) =
      ''/srv/screenshots/screenshot-2024-01-02T03-04-05-678Z.png''"
    by (simp add: screenshot_filepath_def demo_platform_def path_join_def replace_colons_dots_def)
  have b64: "toString_base64 (demo_bytes ''PNG'') = ''UE5H''"
    "fromString_base64 ''UE5H'' = demo_bytes ''PNG''"
    by code_simp+
  from takeScreenshot_saves_what_it_returns [OF stamps, of ?page False demo_world "''UE5H''" "snd ?r"]
    run capture
  have "files (snd ?r) (screenshot_filepath ?P (Date_toISOString ?P (ext (snd ?r)))) =
          Some (demo_bytes ''PNG'')
        \<and> dirs (snd ?r) = insert (SCREENSHOTS_DIR ?P) (dirs demo_world)"
    by auto
  with path have "files (snd ?r) ''/srv/screenshots/screenshot-2024-01-02T03-04-05-678Z.png'' =
          Some (demo_bytes ''PNG'')
        \<and> dirs (snd ?r) = {''/srv/screenshots''}"
    by (simp add: demo_platform_def demo_world_def)
  with stamps shot b64 show ?thesis by blast
qed

section \<open>Properties of scrapePage\<close>

lemma is_raw_content_type_iff:
  "is_raw_content_type ct \<longleftrightarrow>
     (\<exists>c. ct = Some c \<and>
        (\<exists>before after. toLowerCase c = before @ ''application/json'' @ after
                        \<or> toLowerCase c = before @ ''text/plain'' @ after))"
proof (cases ct)
  case None
  then show ?thesis by (simp add: is_raw_content_type_def)
next
  case (Some c)
  have "truthy c" if "toLowerCase c = before @ d @ after" "d \<noteq> []" for before d after
    using that by (auto simp: truthy_def toLowerCase_def)
  then have "truthy c" if "str_includes (toLowerCase c) ''application/json''
      \<or> str_includes (toLowerCase c) ''text/plain''"
    using that unfolding str_includes_iff by (metis list.distinct(1))
  with Some show ?thesis
    by (auto simp: is_raw_content_type_def str_includes_iff)
qed

lemma scrapePage_after_content:
  assumes nav: "goto page u wait_until tmo (ext w) = (Inr response, x_nav)"
      and waits: "post_load_waits page waitAfterLoad tmo checkSelector (w\<lparr>ext := x_nav\<rparr>) = (Inr (), w_waited)"
      and html: "page_content page (ext w_waited) = (Inr html, x_html)"
  shows "scrapePage P page u wait_until waitAfterLoad tmo checkSelector w =
           extract_outcome P response html (w_waited\<lparr>ext := x_html\<rparr>)"
  using nav waits html
  by (simp add: scrapePage_def bnd_apply ext_call_apply)

lemma find_content_type_None_iff:
  "find_content_type hs = None \<longleftrightarrow> (\<forall>entry \<in> set hs. toLowerCase (fst entry) \<noteq> ''content-type'')"
  by (auto simp: find_content_type_def find_None_iff)

lemma find_content_type_Some_iff:
  "find_content_type hs = Some v \<longleftrightarrow>
     (\<exists>before key after. hs = before @ (key, v) # after
        \<and> toLowerCase key = ''content-type''
        \<and> (\<forall>entry \<in> set before. toLowerCase (fst entry) \<noteq> ''content-type''))"
proof (induction hs)
  case Nil
  show ?case by (simp add: find_content_type_def)
next
  case (Cons h hs)
  obtain k val where h: "h = (k, val)" by (cases h)
  show ?case
  proof (cases "toLowerCase k = ''content-type''")
    case True
    have "(\<exists>before key after. h # hs = before @ (key, v) # after
        \<and> toLowerCase key = ''content-type''
        \<and> (\<forall>entry \<in> set before. toLowerCase (fst entry) \<noteq> ''content-type'')) \<longleftrightarrow> v = val"
    proof
      assume "\<exists>before key after. h # hs = before @ (key, v) # after
        \<and> toLowerCase key = ''content-type''
        \<and> (\<forall>entry \<in> set before. toLowerCase (fst entry) \<noteq> ''content-type'')"
      then obtain before key after where eq: "h # hs = before @ (key, v) # after"
        and no: "\<forall>entry \<in> set before. toLowerCase (fst entry) \<noteq> ''content-type''"
        by blast
      show "v = val"
      proof (cases before)
        case Nil
        with eq h show ?thesis by simp
      next
        case (Cons b bs)
        with eq have "b = h" by simp
        with no Cons h True show ?thesis by simp
      qed
    next
      assume "v = val"
      with h True have "h # hs = [] @ (k, v) # hs \<and> toLowerCase k = ''content-type''
        \<and> (\<forall>entry \<in> set []. toLowerCase (fst entry) \<noteq> ''content-type'')"
        by simp
      then show "\<exists>before key after. h # hs = before @ (key, v) # after
        \<and> toLowerCase key = ''content-type''
        \<and> (\<forall>entry \<in> set before. toLowerCase (fst entry) \<noteq> ''content-type'')"
        by blast
    qed
    with h True show ?thesis by (auto simp: find_content_type_def)
  next
    case False
    have "(\<exists>before key after. h # hs = before @ (key, v) # after
        \<and> toLowerCase key = ''content-type''
        \<and> (\<forall>entry \<in> set before. toLowerCase (fst entry) \<noteq> ''content-type'')) \<longleftrightarrow>
      (\<exists>before key after. hs = before @ (key, v) # after
        \<and> toLowerCase key = ''content-type''
        \<and> (\<forall>entry \<in> set before. toLowerCase (fst entry) \<noteq> ''content-type''))"
    proof
      assume "\<exists>before key after. h # hs = before @ (key, v) # after
        \<and> toLowerCase key = ''content-type''
        \<and> (\<forall>entry \<in> set before. toLowerCase (fst entry) \<noteq> ''content-type'')"
      then obtain before key after where eq: "h # hs = before @ (key, v) # after"
        and key: "toLowerCase key = ''content-type''"
        and no: "\<forall>entry \<in> set before. toLowerCase (fst entry) \<noteq> ''content-type''"
        by blast
      show "\<exists>before key after. hs = before @ (key, v) # after
        \<and> toLowerCase key = ''content-type''
        \<and> (\<forall>entry \<in> set before. toLowerCase (fst entry) \<noteq> ''content-type'')"
      proof (cases before)
        case Nil
        with eq h key False show ?thesis by simp
      next
        case (Cons b bs)
        with eq no have "hs = bs @ (key, v) # after"
          "\<forall>entry \<in> set bs. toLowerCase (fst entry) \<noteq> ''content-type''"
          by simp_all
        with key show ?thesis by blast
      qed
    next
      assume "\<exists>before key after. hs = before @ (key, v) # after
        \<and> toLowerCase key = ''content-type''
        \<and> (\<forall>entry \<in> set before. toLowerCase (fst entry) \<noteq> ''content-type'')"
      then obtain before key after where eq: "hs = before @ (key, v) # after"
        and key: "toLowerCase key = ''content-type''"
        and no: "\<forall>entry \<in> set before. toLowerCase (fst entry) \<noteq> ''content-type''"
        by blast
      from eq no h False have "h # hs = (h # before) @ (key, v) # after"
        "\<forall>entry \<in> set (h # before). toLowerCase (fst entry) \<noteq> ''content-type''"
        by simp_all
      with key show "\<exists>before key after. h # hs = before @ (key, v) # after
        \<and> toLowerCase key = ''content-type''
        \<and> (\<forall>entry \<in> set before. toLowerCase (fst entry) \<noteq> ''content-type'')"
        by blast
    qed
    with Cons.IH h False show ?thesis by (simp add: find_content_type_def)
  qed
qed

text \<open>
  Claim C7. Once the navigation has returned, the waits are over and the HTML of the page
  has been read: without a response object the outcome has the HTML as content and no
  status, headers or content type; with a response object it has the status of the
  response, its headers and the value of its content-type header, and as content the body
  of the response decoded as UTF-8 when that value, in lower case, contains
  \<open>application/json\<close> or \<open>text/plain\<close>, the HTML of the page otherwise. The value of the
  content-type header is the value of the first header whose name, in lower case, is
  \<open>content-type\<close>; there is none when no header has that name.
\<close>

theorem scrapePage_content_selection:
  assumes nav: "goto page u wait_until tmo (ext w) = (Inr response, x_nav)"
      and waits: "post_load_waits page waitAfterLoad tmo checkSelector (w\<lparr>ext := x_nav\<rparr>) = (Inr (), w_waited)"
      and html: "page_content page (ext w_waited) = (Inr html, x_html)"
  shows "(response = None \<longrightarrow>
            scrapePage P page u wait_until waitAfterLoad tmo checkSelector w =
              (Inr \<lparr>content = html, status = None, outcome_headers = None, contentType = None\<rparr>,
               w_waited\<lparr>ext := x_html\<rparr>))
       \<and> (response = Some r \<and> allHeaders r x_html = (Inr hs, x_hdrs)
             \<and> \<not> is_raw_content_type (find_content_type hs) \<longrightarrow>
            scrapePage P page u wait_until waitAfterLoad tmo checkSelector w =
              (Inr \<lparr>content = html, status = Some (response_status r), outcome_headers = Some hs,
                     contentType = find_content_type hs\<rparr>,
               w_waited\<lparr>ext := x_hdrs\<rparr>))
       \<and> (response = Some r \<and> allHeaders r x_html = (Inr hs, x_hdrs)
             \<and> is_raw_content_type (find_content_type hs)
             \<and> response_body r x_hdrs = (Inr b, x_body) \<longrightarrow>
            scrapePage P page u wait_until waitAfterLoad tmo checkSelector w =
              (Inr \<lparr>content = toString_utf8 P b, status = Some (response_status r),
                     outcome_headers = Some hs, contentType = find_content_type hs\<rparr>,
               w_waited\<lparr>ext := x_body\<rparr>))
       \<and> (is_raw_content_type ct \<longleftrightarrow>
            (\<exists>c. ct = Some c \<and>
               (\<exists>before after. toLowerCase c = before @ ''application/json'' @ after
                               \<or> toLowerCase c = before @ ''text/plain'' @ after)))
       \<and> (find_content_type any_hs = Some v \<longleftrightarrow>
            (\<exists>before key after. any_hs = before @ (key, v) # after
               \<and> toLowerCase key = ''content-type''
               \<and> (\<forall>entry \<in> set before. toLowerCase (fst entry) \<noteq> ''content-type'')))
       \<and> (find_content_type any_hs = None \<longleftrightarrow>
            (\<forall>entry \<in> set any_hs. toLowerCase (fst entry) \<noteq> ''content-type''))"
proof -
  have outcome: "(response = None \<longrightarrow>
            scrapePage P page u wait_until waitAfterLoad tmo checkSelector w =
              (Inr \<lparr>content = html, status = None, outcome_headers = None, contentType = None\<rparr>,
               w_waited\<lparr>ext := x_html\<rparr>))
       \<and> (response = Some r \<and> allHeaders r x_html = (Inr hs, x_hdrs)
             \<and> \<not> is_raw_content_type (find_content_type hs) \<longrightarrow>
            scrapePage P page u wait_until waitAfterLoad tmo checkSelector w =
              (Inr \<lparr>content = html, status = Some (response_status r), outcome_headers = Some hs,
                     contentType = find_content_type hs\<rparr>,
               w_waited\<lparr>ext := x_hdrs\<rparr>))
       \<and> (response = Some r \<and> allHeaders r x_html = (Inr hs, x_hdrs)
             \<and> is_raw_content_type (find_content_type hs)
             \<and> response_body r x_hdrs = (Inr b, x_body) \<longrightarrow>
            scrapePage P page u wait_until waitAfterLoad tmo checkSelector w =
              (Inr \<lparr>content = toString_utf8 P b, status = Some (response_status r),
                     outcome_headers = Some hs, contentType = find_content_type hs\<rparr>,
               w_waited\<lparr>ext := x_body\<rparr>))"
    unfolding scrapePage_after_content [OF nav waits html]
    by (simp add: extract_outcome_def bnd_apply ext_call_apply ret_apply)
  from outcome is_raw_content_type_iff [of ct] find_content_type_Some_iff [of any_hs v]
    find_content_type_None_iff [of any_hs]
  show ?thesis by blast
qed

theorem scrapePage_content_selection_witness:
  "fst (scrapePage
         (demo_platform {} (Some [(''X-Content-Type-Options'', ''nosniff''),
                                   (''Content-Type'', ''Application/JSON; charset=utf-8''),
                                   (''content-type'', ''text/html'')]))
         (demo_page {} (Some [(''X-Content-Type-Options'', ''nosniff''),
                               (''Content-Type'', ''Application/JSON; charset=utf-8''),
                               (''content-type'', ''text/html'')]))
         ''https://example.com/'' Load 0 15000 None demo_world) =
     Inr \<lparr>content = ''[1,2]'', status = Some 200,
           outcome_headers = Some [(''X-Content-Type-Options'', ''nosniff''),
                                   (''Content-Type'', ''Application/JSON; charset=utf-8''),
                                   (''content-type'', ''text/html'')],
           contentType = Some ''Application/JSON; charset=utf-8''\<rparr>
   \<and> fst (scrapePage
         (demo_platform {} (Some [(''Content-Length'', ''13''), (''content-type'', ''text/html'')]))
         (demo_page {} (Some [(''Content-Length'', ''13''), (''content-type'', ''text/html'')]))
         ''https://example.com/'' Load 0 15000 None demo_world) =
     Inr \<lparr>content = ''<html></html>'', status = Some 200,
           outcome_headers = Some [(''Content-Length'', ''13''), (''content-type'', ''text/html'')],
           contentType = Some ''text/html''\<rparr>
   \<and> fst (scrapePage
         (demo_platform {} (Some [(''Content-Length'', ''13'')]))
         (demo_page {} (Some [(''Content-Length'', ''13'')]))
         ''https://example.com/'' Load 0 15000 None demo_world) =
     Inr \<lparr>content = ''<html></html>'', status = Some 200,
           outcome_headers = Some [(''Content-Length'', ''13'')], contentType = None\<rparr>
   \<and> fst (scrapePage (demo_platform {} None) (demo_page {} None)
         ''https://example.com/'' Load 0 15000 None demo_world) =
     Inr \<lparr>content = ''<html></html>'', status = None, outcome_headers = None, contentType = None\<rparr>"
proof -
  let ?w1 = "demo_world\<lparr>ext := [''goto'']\<rparr>"
  let ?json = "[(''X-Content-Type-Options'', ''nosniff''),
                (''Content-Type'', ''Application/JSON; charset=utf-8''),
                (''content-type'', ''text/html'')]"
  let ?page = "[(''Content-Length'', ''13''), (''content-type'', ''text/html'')]"
  let ?bare = "[(''Content-Length'', ''13'')]"
  have nav: "goto (demo_page {} hs) ''https://example.com/'' Load 15000 (ext demo_world) =
      (Inr (map_option demo_response hs), [''goto''])" for hs
    by (simp add: demo_page_def demo_op_def demo_world_def)
  have waits: "post_load_waits (demo_page {} hs) 0 15000 None ?w1 = (Inr (), ?w1)" for hs
    by (simp add: post_load_waits_def bnd_apply ret_apply)
  have html: "page_content (demo_page {} hs) (ext ?w1) = (Inr ''<html></html>'', [''goto'', ''content''])"
    for hs
    by (simp add: demo_page_def demo_op_def)
  have hdrs: "allHeaders (demo_response hs) [''goto'', ''content''] =
      (Inr hs, [''goto'', ''content'', ''allHeaders''])" for hs
    by (simp add: demo_response_def)
  have body: "response_body (demo_response hs) [''goto'', ''content'', ''allHeaders''] =
      (Inr (demo_bytes ''[1,2]''), [''goto'', ''content'', ''allHeaders'', ''body''])" for hs
    by (simp add: demo_response_def)
  have decode: "toString_utf8 (demo_platform {} hs) (demo_bytes ''[1,2]'') = ''[1,2]''" for hs
    unfolding demo_platform_def by simp code_simp
  have st: "response_status (demo_response hs) = 200" for hs
    by (simp add: demo_response_def)
  have names: "toLowerCase ''Content-Type'' = ''content-type''"
    "toLowerCase ''content-type'' = ''content-type''"
    "toLowerCase ''X-Content-Type-Options'' \<noteq> ''content-type''"
    "toLowerCase ''Content-Length'' \<noteq> ''content-type''"
    by code_simp+
  note json_inst = scrapePage_content_selection
      [where r = "demo_response ?json" and hs = ?json and b = "demo_bytes ''[1,2]''"
         and x_hdrs = "[''goto'', ''content'', ''allHeaders'']"
         and x_body = "[''goto'', ''content'', ''allHeaders'', ''body'']"
         and P = "demo_platform {} (Some ?json)"
         and any_hs = ?json and v = "''Application/JSON; charset=utf-8''",
       OF nav [of "Some ?json"] waits html]
  have "?json = [(''X-Content-Type-Options'', ''nosniff'')]
                  @ (''Content-Type'', ''Application/JSON; charset=utf-8'')
                  # [(''content-type'', ''text/html'')]
        \<and> toLowerCase ''Content-Type'' = ''content-type''
        \<and> (\<forall>entry \<in> set [(''X-Content-Type-Options'', ''nosniff'')].
              toLowerCase (fst entry) \<noteq> ''content-type'')"
    using names by simp
  with json_inst [THEN conjunct2, THEN conjunct2, THEN conjunct2, THEN conjunct2, THEN conjunct1]
  have ct_json: "find_content_type ?json = Some ''Application/JSON; charset=utf-8''"
    by blast
  have json: "is_raw_content_type (Some ''Application/JSON; charset=utf-8'')"
    by code_simp
  from json_inst [THEN conjunct2, THEN conjunct2, THEN conjunct1, THEN mp]
    hdrs body json ct_json decode st
  have a: "fst (scrapePage (demo_platform {} (Some ?json)) (demo_page {} (Some ?json))
         ''https://example.com/'' Load 0 15000 None demo_world) =
     Inr \<lparr>content = ''[1,2]'', status = Some 200, outcome_headers = Some ?json,
           contentType = Some ''Application/JSON; charset=utf-8''\<rparr>"
    by simp
  note page_inst = scrapePage_content_selection
      [where r = "demo_response ?page" and hs = ?page
         and x_hdrs = "[''goto'', ''content'', ''allHeaders'']"
         and P = "demo_platform {} (Some ?page)"
         and any_hs = ?page and v = "''text/html''",
       OF nav [of "Some ?page"] waits html]
  have "?page = [(''Content-Length'', ''13'')] @ (''content-type'', ''text/html'') # []
        \<and> toLowerCase ''content-type'' = ''content-type''
        \<and> (\<forall>entry \<in> set [(''Content-Length'', ''13'')].
              toLowerCase (fst entry) \<noteq> ''content-type'')"
    using names by simp
  with page_inst [THEN conjunct2, THEN conjunct2, THEN conjunct2, THEN conjunct2, THEN conjunct1]
  have ct_page: "find_content_type ?page = Some ''text/html''"
    by blast
  have not_raw: "\<not> is_raw_content_type (Some ''text/html'')"
    "\<not> is_raw_content_type None"
    by code_simp+
  from page_inst [THEN conjunct2, THEN conjunct1, THEN mp] hdrs not_raw ct_page st
  have b: "fst (scrapePage (demo_platform {} (Some ?page)) (demo_page {} (Some ?page))
         ''https://example.com/'' Load 0 15000 None demo_world) =
     Inr \<lparr>content = ''<html></html>'', status = Some 200, outcome_headers = Some ?page,
           contentType = Some ''text/html''\<rparr>"
    by simp
  note bare_inst = scrapePage_content_selection
      [where r = "demo_response ?bare" and hs = ?bare
         and x_hdrs = "[''goto'', ''content'', ''allHeaders'']"
         and P = "demo_platform {} (Some ?bare)" and any_hs = ?bare,
       OF nav [of "Some ?bare"] waits html]
  have "\<forall>entry \<in> set ?bare. toLowerCase (fst entry) \<noteq> ''content-type''"
    using names by simp
  with bare_inst [THEN conjunct2, THEN conjunct2, THEN conjunct2, THEN conjunct2, THEN conjunct2]
  have ct_bare: "find_content_type ?bare = None"
    by blast
  from bare_inst [THEN conjunct2, THEN conjunct1, THEN mp] hdrs not_raw ct_bare st
  have c: "fst (scrapePage (demo_platform {} (Some ?bare)) (demo_page {} (Some ?bare))
         ''https://example.com/'' Load 0 15000 None demo_world) =
     Inr \<lparr>content = ''<html></html>'', status = Some 200, outcome_headers = Some ?bare,
           contentType = None\<rparr>"
    by simp
  from scrapePage_content_selection
      [where P = "demo_platform {} None", OF nav [of None] waits html, THEN conjunct1, THEN mp]
  have d: "fst (scrapePage (demo_platform {} None) (demo_page {} None)
         ''https://example.com/'' Load 0 15000 None demo_world) =
     Inr \<lparr>content = ''<html></html>'', status = None, outcome_headers = None, contentType = None\<rparr>"
    by simp
  from a b c d show ?thesis by blast
qed

section \<open>Properties of executeActions\<close>

lemma guarded_action_fault:
  "run_action P page action results w = (Inl e, w') \<Longrightarrow>
   guarded_action P page action results w =
     (Inr results, w'\<lparr>console := console w' @ [Errored (''Action failed: '' @ message e)]\<rparr>)"
  by (simp add: guarded_action_def try_catch_def bnd_apply console_error_def ret_apply)






subsection \<open>The console only grows\<close>
















subsection \<open>The results only grow\<close>









section \<open>Properties of the session lifecycle\<close>

lemma in_world_apply:
  "in_world m sv = (case m (world sv) of (r, w') \<Rightarrow> (r, sv\<lparr>world := w'\<rparr>))"
  by (simp add: in_world_def)

lemma browser_call_apply:
  "browser_call ev m sv =
     (case m (ext (world sv)) of
        (Inl e, x') \<Rightarrow> (Inl e, sv\<lparr>world := (world sv)\<lparr>ext := x'\<rparr>\<rparr>)
      | (Inr a, x') \<Rightarrow>
          (Inr a, sv\<lparr>world := (world sv)\<lparr>ext := x'\<rparr>, lifecycle := lifecycle sv @ [ev]\<rparr>))"
  by (simp add: browser_call_def bnd_apply in_world_def ext_call_def note_event_def ret_apply
           split: prod.splits sum.splits)

lemma createContext_opened:
  assumes "createContext P skipTls sv = (Inr ctx, sv')"
  shows "lifecycle sv' = lifecycle sv @ [Context_opened] \<and> pageSemaphore sv' = pageSemaphore sv"
  using assms
  by (auto simp: createContext_def bnd_apply in_world_apply ext_call_apply browser_call_apply
        ret_apply split: prod.splits sum.splits if_splits)

lemma release_permit_apply:
  "release_permit sv =
     (Inr (), sv\<lparr>pageSemaphore := snd (release (pageSemaphore sv)),
                 lifecycle := lifecycle sv @ [Permit_released]\<rparr>)"
  by (simp add: release_permit_def split: prod.splits)

lemma scrape_finally_closes:
  assumes pclose: "\<And>x. fst (page_close page x) = Inr ()"
      and cclose: "\<And>x. fst (context_close ctx x) = Inr ()"
  shows "fst (scrape_finally (Some ctx) (Some page) sv) = Inr ()
       \<and> lifecycle (snd (scrape_finally (Some ctx) (Some page) sv)) =
           lifecycle sv @ [Page_closed, Context_closed, Permit_released]
       \<and> pageSemaphore (snd (scrape_finally (Some ctx) (Some page) sv)) =
           snd (release (pageSemaphore sv))"
proof -
  obtain x1 where p: "page_close page (ext (world sv)) = (Inr (), x1)"
    using pclose [of "ext (world sv)"] by (cases "page_close page (ext (world sv))") auto
  obtain x2 where c: "context_close ctx x1 = (Inr (), x2)"
    using cclose [of x1] by (cases "context_close ctx x1") auto
  show ?thesis
    by (simp add: scrape_finally_def bnd_apply browser_call_apply p c release_permit_apply)
qed

text \<open>
  The three statements of the \<open>finally\<close> block are not guarded one by one: when
  \<open>page.close\<close> throws, the block is left at once.
\<close>

lemma scrape_finally_page_close_fault:
  assumes "page_close page (ext (world sv)) = (Inl e, x')"
  shows "scrape_finally requestContext (Some page) sv =
           (Inl e, sv\<lparr>world := (world sv)\<lparr>ext := x'\<rparr>\<rparr>)"
  using assms by (simp add: scrape_finally_def bnd_apply browser_call_apply)

lemma scrape_catch_frame:
  "lifecycle (snd (scrape_catch r sv)) = lifecycle sv
   \<and> pageSemaphore (snd (scrape_catch r sv)) = pageSemaphore sv"
  by (cases r) (simp_all add: scrape_catch_def in_world_apply console_error_def)

text \<open>The \<open>try\<close> block of a request whose context and page were created.\<close>

lemma scrape_try_opened:
  assumes ctx: "createContext P (flag (skip_tls_verification req)) sv = (Inr ctx, sv_ctx)"
      and pg: "newPage ctx (ext (world sv_ctx)) = (Inr page, x_page)"
  shows "scrape_try P req sv =
           ((Some ctx, Some page, fst (render P req page ((world sv_ctx)\<lparr>ext := x_page\<rparr>))),
            sv_ctx\<lparr>world := snd (render P req page ((world sv_ctx)\<lparr>ext := x_page\<rparr>)),
                   lifecycle := lifecycle sv @ [Context_opened, Page_opened]\<rparr>)"
  using createContext_opened [OF ctx]
  by (simp add: scrape_try_def ctx browser_call_apply pg in_world_apply split: prod.splits)

lemma scrape_admitted_sent:
  assumes ctx: "createContext P (flag (skip_tls_verification req)) sv = (Inr ctx, sv_ctx)"
      and pg: "newPage ctx (ext (world sv_ctx)) = (Inr page, x_page)"
  shows "sent (fst (scrape_admitted P req sv)) =
           (case fst (render P req page ((world sv_ctx)\<lparr>ext := x_page\<rparr>)) of
              Inr body \<Rightarrow> Json_200 body
            | Inl e \<Rightarrow> Json_error 500 ''An error occurred while fetching the page.'')"
  by (simp add: scrape_admitted_def scrape_try_opened [OF ctx pg] scrape_catch_def
        split: prod.splits sum.splits)

lemma scrape_admitted_lifecycle:
  assumes ctx: "createContext P (flag (skip_tls_verification req)) sv = (Inr ctx, sv_ctx)"
      and pg: "newPage ctx (ext (world sv_ctx)) = (Inr page, x_page)"
      and pclose: "\<And>x. fst (page_close page x) = Inr ()"
      and cclose: "\<And>x. fst (context_close ctx x) = Inr ()"
  shows "escaped (fst (scrape_admitted P req sv)) = None
       \<and> lifecycle (snd (scrape_admitted P req sv)) =
           lifecycle sv @ [Context_opened, Page_opened, Page_closed, Context_closed, Permit_released]
       \<and> pageSemaphore (snd (scrape_admitted P req sv)) = snd (release (pageSemaphore sv))"
proof -
  let ?r = "fst (render P req page ((world sv_ctx)\<lparr>ext := x_page\<rparr>))"
  let ?sv1 = "sv_ctx\<lparr>world := snd (render P req page ((world sv_ctx)\<lparr>ext := x_page\<rparr>)),
                     lifecycle := lifecycle sv @ [Context_opened, Page_opened]\<rparr>"
  obtain rep sv2 where c: "scrape_catch ?r ?sv1 = (rep, sv2)" by (cases "scrape_catch ?r ?sv1")
  from scrape_catch_frame [of ?r ?sv1] c createContext_opened [OF ctx]
  have frame: "lifecycle sv2 = lifecycle sv @ [Context_opened, Page_opened]"
    "pageSemaphore sv2 = pageSemaphore sv"
    by simp_all
  obtain f sv3 where fin: "scrape_finally (Some ctx) (Some page) sv2 = (f, sv3)"
    by (cases "scrape_finally (Some ctx) (Some page) sv2")
  from scrape_finally_closes [OF pclose cclose, of sv2] fin frame
  have "f = Inr ()"
    "lifecycle sv3 = lifecycle sv @ [Context_opened, Page_opened, Page_closed, Context_closed, Permit_released]"
    "pageSemaphore sv3 = snd (release (pageSemaphore sv))"
    by simp_all
  then show ?thesis
    by (simp add: scrape_admitted_def scrape_try_opened [OF ctx pg] c fin)
qed

subsection \<open>Requests sharing the semaphore\<close>




subsection \<open>The exit paths before the page exists\<close>







section \<open>Properties of the reply\<close>

lemma render_apply:
  "render P req page w =
     (case navigate_and_act P req page w of
        (Inl e, w_acted) \<Rightarrow> (Inl e, w_acted)
      | (Inr (result, actionResults), w_acted) \<Rightarrow>
          (case top_level_screenshot P req page actionResults w_acted of
             (Inl e, w') \<Rightarrow> (Inl e, w')
           | (Inr (screenshotData, actionResults'), w') \<Rightarrow>
               (Inr (response_body_of result screenshotData
                       (lone_screenshot screenshotData actionResults')
                       (page_error_of P (status result))), w')))"
  by (simp add: render_def bnd_apply ret_apply split: prod.splits sum.splits)

lemma scrapePage_nav_fault:
  "goto page u wait_until tmo (ext w) = (Inl e, x_nav) \<Longrightarrow>
   scrapePage P page u wait_until waitAfterLoad tmo checkSelector w = (Inl e, w\<lparr>ext := x_nav\<rparr>)"
  by (simp add: scrapePage_def bnd_apply ext_call_apply)

lemma extract_outcome_status:
  "extract_outcome P response html w = (Inr result, w') \<Longrightarrow>
   status result = map_option response_status response"
  by (cases response)
     (auto simp: extract_outcome_def ret_apply bnd_apply split: prod.splits sum.splits if_splits)

lemma scrapePage_returned:
  assumes "scrapePage P page u wait_until waitAfterLoad tmo checkSelector w = (Inr result, w')"
  shows "\<exists>response x_nav. goto page u wait_until tmo (ext w) = (Inr response, x_nav)
           \<and> status result = map_option response_status response"
proof (cases "goto page u wait_until tmo (ext w)")
  case (Pair r x_nav)
  show ?thesis
  proof (cases r)
    case (Inl e)
    with Pair assms show ?thesis by (simp add: scrapePage_nav_fault)
  next
    case (Inr response)
    with Pair assms have "status result = map_option response_status response"
      by (auto simp: scrapePage_def bnd_apply ext_call_apply
            split: prod.splits sum.splits dest: extract_outcome_status)
    with Pair Inr show ?thesis by simp
  qed
qed

lemma navigate_and_act_returned:
  assumes hdrs: "(case headers req of None \<Rightarrow> ret ()
                  | Some hs \<Rightarrow> ext_call (setExtraHTTPHeaders page hs)) w = (Inr (), w_headers)"
      and nav: "navigate_and_act P req page w = (Inr (result, actionResults), w_acted)"
  shows "\<exists>w_loaded.
           scrapePage P page (url req) Load
             (case wait_after_load req of None \<Rightarrow> 0 | Some n \<Rightarrow> n)
             (case timeout req of None \<Rightarrow> 15000 | Some n \<Rightarrow> n)
             (check_selector req) w_headers = (Inr result, w_loaded)
           \<and> (case actionResults of
                 None \<Rightarrow> (actions req = None \<or> actions req = Some []) \<and> w_acted = w_loaded
               | Some r \<Rightarrow>
                   (\<exists>acts. actions req = Some acts \<and> acts \<noteq> []
                      \<and> executeActions P page acts w_loaded = (Inr r, w_acted)))"
  using nav hdrs
  by (auto simp: navigate_and_act_def bnd_apply ret_apply
        split: prod.splits sum.splits option.splits list.splits)

lemma navigate_and_act_nav_fault:
  assumes hdrs: "(case headers req of None \<Rightarrow> ret ()
                  | Some hs \<Rightarrow> ext_call (setExtraHTTPHeaders page hs)) w = (Inr (), w_headers)"
      and nav: "goto page (url req) Load (case timeout req of None \<Rightarrow> 15000 | Some n \<Rightarrow> n)
                  (ext w_headers) = (Inl e, x_nav)"
  shows "navigate_and_act P req page w = (Inl e, w_headers\<lparr>ext := x_nav\<rparr>)"
  using hdrs scrapePage_nav_fault [OF nav]
  by (simp add: navigate_and_act_def bnd_apply)

text \<open>What the \<open>finally\<close> block leaves of the console.\<close>

lemma browser_call_console: "console (world (snd (browser_call ev m sv))) = console (world sv)"
  by (simp add: browser_call_apply split: prod.splits sum.splits)

lemma scrape_finally_console:
  "console (world (snd (scrape_finally requestContext page sv))) = console (world sv)"
proof -
  let ?close_page = "case page of None \<Rightarrow> ret () | Some p \<Rightarrow> browser_call Page_closed (page_close p)"
  let ?close_ctx = "case requestContext of None \<Rightarrow> ret ()
                    | Some c \<Rightarrow> browser_call Context_closed (context_close c)"
  have a: "console (world (snd (?close_page s))) = console (world s)" for s :: "'a server"
    by (cases page) (simp_all add: ret_apply browser_call_console)
  have b: "console (world (snd (?close_ctx s))) = console (world s)" for s :: "'a server"
    by (cases requestContext) (simp_all add: ret_apply browser_call_console)
  have c: "console (world (snd (release_permit s))) = console (world s)" for s :: "'a server"
    by (simp add: release_permit_apply)
  obtain r1 s1 where p: "?close_page sv = (r1, s1)" by (cases "?close_page sv")
  obtain r2 s2 where q: "?close_ctx s1 = (r2, s2)" by (cases "?close_ctx s1")
  from a [of sv] p have a': "console (world s1) = console (world sv)" by simp
  from b [of s1] q have b': "console (world s2) = console (world s1)" by simp
  show ?thesis
    unfolding scrape_finally_def
    by (cases r1; cases r2) (simp_all add: bnd_apply p q a' b' c)
qed

lemma scrape_admitted_fault_logged:
  assumes ctx: "createContext P (flag (skip_tls_verification req)) sv = (Inr ctx, sv_ctx)"
      and pg: "newPage ctx (ext (world sv_ctx)) = (Inr page, x_page)"
      and fault: "render P req page ((world sv_ctx)\<lparr>ext := x_page\<rparr>) = (Inl e, w')"
  shows "sent (fst (scrape_admitted P req sv)) =
           Json_error 500 ''An error occurred while fetching the page.''
       \<and> console (world (snd (scrape_admitted P req sv))) =
           console w' @ [Errored (''Scrape error: '' @ message e)]"
proof -
  let ?sv1 = "sv_ctx\<lparr>world := w', lifecycle := lifecycle sv @ [Context_opened, Page_opened]\<rparr>"
  let ?sv2 = "snd (scrape_catch (Inl e) ?sv1)"
  have logged: "console (world ?sv2) = console w' @ [Errored (''Scrape error: '' @ message e)]"
    by (simp add: scrape_catch_def in_world_apply console_error_def)
  have "console (world (snd (scrape_admitted P req sv))) =
      console (world (snd (scrape_finally (Some ctx) (Some page) ?sv2)))"
    by (simp add: scrape_admitted_def scrape_try_opened [OF ctx pg] fault
          split: prod.splits sum.splits)
  with logged scrape_finally_console [of "Some ctx" "Some page" ?sv2]
  have "console (world (snd (scrape_admitted P req sv))) =
      console w' @ [Errored (''Scrape error: '' @ message e)]"
    by simp
  with scrape_admitted_sent [OF ctx pg] fault show ?thesis by simp
qed

text \<open>
  Claim C4, as stated, fails: a navigation that throws (a timeout, for one) leaves the \<open>try\<close>
  block, and the \<open>catch\<close> block answers with HTTP 500 and a generic error body. There is
  no structured response, no status code and no page-error classification.
\<close>

theorem navigation_timeout_is_answered_with_500:
  "goto (demo_page {''goto''} None) (url demo_request) Load 15000
     [''UserAgent'', ''newContext'', ''route'', ''newPage''] =
     (Inl (JsError ''goto failed''), [''UserAgent'', ''newContext'', ''route'', ''newPage'', ''goto''])
   \<and> sent (fst (scrape_admitted (demo_platform {''goto''} None) demo_request demo_server)) =
       Json_error 500 ''An error occurred while fetching the page.''
   \<and> console (world (snd (scrape_admitted (demo_platform {''goto''} None) demo_request demo_server))) =
       [Errored ''Scrape error: goto failed'']"
proof -
  have thrown: "goto (demo_page {''goto''} None) (url demo_request) Load 15000
      [''UserAgent'', ''newContext'', ''route'', ''newPage''] =
      (Inl (JsError ''goto failed''), [''UserAgent'', ''newContext'', ''route'', ''newPage'', ''goto''])"
    by (simp add: demo_page_def demo_op_def)
  have reply: "sent (fst (scrape_admitted (demo_platform {''goto''} None) demo_request demo_server)) =
      Json_error 500 ''An error occurred while fetching the page.''"
    by code_simp
  have logged: "console (world (snd (scrape_admitted (demo_platform {''goto''} None) demo_request demo_server))) =
      [Errored ''Scrape error: goto failed'']"
    by code_simp
  from thrown reply logged show ?thesis by blast
qed

text \<open>
  Claim C4, amended. For a request whose context and page were created and whose extra
  headers were set: when the navigation throws, the fault is caught and written on the
  console, and the reply is HTTP 500 with the body
  \<open>{ error: "An error occurred while fetching the page." }\<close>; the handler itself ends
  without a fault when \<open>page.close\<close> and \<open>context.close\<close> return. A structured response
  is sent only when the navigation has returned; its status code is the status of the
  response object, null when there is none, and in that case its page error is
  \<open>getError(null)\<close> when that is a non-empty string, and absent otherwise.
\<close>

theorem navigation_fault_gives_internal_error:
  assumes ctx: "createContext P (flag (skip_tls_verification req)) sv = (Inr ctx, sv_ctx)"
      and pg: "newPage ctx (ext (world sv_ctx)) = (Inr page, x_page)"
      and hdrs: "(case headers req of None \<Rightarrow> ret ()
                  | Some hs \<Rightarrow> ext_call (setExtraHTTPHeaders page hs)) ((world sv_ctx)\<lparr>ext := x_page\<rparr>) =
                 (Inr (), w_headers)"
  shows "(goto page (url req) Load (case timeout req of None \<Rightarrow> 15000 | Some n \<Rightarrow> n)
            (ext w_headers) = (Inl e, x_nav) \<longrightarrow>
            sent (fst (scrape_admitted P req sv)) =
              Json_error 500 ''An error occurred while fetching the page.''
            \<and> Errored (''Scrape error: '' @ message e)
                \<in> set (console (world (snd (scrape_admitted P req sv)))))
       \<and> ((\<forall>x. fst (page_close page x) = Inr ()) \<and> (\<forall>x. fst (context_close ctx x) = Inr ()) \<longrightarrow>
            escaped (fst (scrape_admitted P req sv)) = None)
       \<and> (sent (fst (scrape_admitted P req sv)) = Json_200 body \<longrightarrow>
            (\<exists>response x_ok.
               goto page (url req) Load (case timeout req of None \<Rightarrow> 15000 | Some n \<Rightarrow> n)
                 (ext w_headers) = (Inr response, x_ok)
               \<and> pageStatusCode body = map_option response_status response
               \<and> (response = None \<longrightarrow>
                    pageError body =
                      (if truthy_opt (getError P None) then getError P None else None))))"
proof -
  let ?w_page = "(world sv_ctx)\<lparr>ext := x_page\<rparr>"
  let ?tmo = "case timeout req of None \<Rightarrow> 15000 | Some n \<Rightarrow> n"
  have fault: "sent (fst (scrape_admitted P req sv)) =
        Json_error 500 ''An error occurred while fetching the page.''
      \<and> Errored (''Scrape error: '' @ message e)
          \<in> set (console (world (snd (scrape_admitted P req sv))))"
    if nav: "goto page (url req) Load ?tmo (ext w_headers) = (Inl e, x_nav)"
  proof -
    from navigate_and_act_nav_fault [OF hdrs nav]
    have "render P req page ?w_page = (Inl e, w_headers\<lparr>ext := x_nav\<rparr>)"
      by (simp add: render_apply)
    from scrape_admitted_fault_logged [OF ctx pg this] show ?thesis by simp
  qed
  have handled: "escaped (fst (scrape_admitted P req sv)) = None"
    if "(\<forall>x. fst (page_close page x) = Inr ()) \<and> (\<forall>x. fst (context_close ctx x) = Inr ())"
    using that scrape_admitted_lifecycle [OF ctx pg] by blast
  have structured: "\<exists>response x_ok.
        goto page (url req) Load ?tmo (ext w_headers) = (Inr response, x_ok)
        \<and> pageStatusCode body = map_option response_status response
        \<and> (response = None \<longrightarrow>
             pageError body = (if truthy_opt (getError P None) then getError P None else None))"
    if reply: "sent (fst (scrape_admitted P req sv)) = Json_200 body"
  proof -
    from reply scrape_admitted_sent [OF ctx pg]
    obtain w' where r: "render P req page ?w_page = (Inr body, w')"
      by (cases "render P req page ?w_page") (auto split: sum.splits)
    then obtain result actionResults w_acted screenshotData actionResults'
      where act: "navigate_and_act P req page ?w_page = (Inr (result, actionResults), w_acted)"
        and body: "body = response_body_of result screenshotData
                     (lone_screenshot screenshotData actionResults')
                     (page_error_of P (status result))"
      by (auto simp: render_apply split: prod.splits sum.splits)
    from navigate_and_act_returned [OF hdrs act] obtain w_loaded
      where "scrapePage P page (url req) Load
               (case wait_after_load req of None \<Rightarrow> 0 | Some n \<Rightarrow> n) ?tmo
               (check_selector req) w_headers = (Inr result, w_loaded)"
      by blast
    from scrapePage_returned [OF this] obtain response x_ok
      where nav: "goto page (url req) Load ?tmo (ext w_headers) = (Inr response, x_ok)"
        and st: "status result = map_option response_status response"
      by blast
    from body st have "pageStatusCode body = map_option response_status response"
      by (simp add: response_body_of_def)
    moreover from body st have "pageError body =
        (if truthy_opt (getError P None) then getError P None else None)" if "response = None"
      using that by (simp add: response_body_of_def page_error_of_def)
    ultimately show ?thesis using nav by blast
  qed
  from fault handled structured show ?thesis by blast
qed

lemma demo_session:
  assumes "B \<subseteq> {''goto'', ''screenshot'', ''fullPage'', ''pdf''}"
      and "skip_tls_verification req = None"
  shows "createContext (demo_platform B hs) (flag (skip_tls_verification req)) demo_server =
           (Inr (demo_context B hs),
            snd (createContext (demo_platform B hs) (flag (skip_tls_verification req)) demo_server))"
    and "ext (world (snd (createContext (demo_platform B hs)
           (flag (skip_tls_verification req)) demo_server))) =
           [''UserAgent'', ''newContext'', ''route'']"
    and "newPage (demo_context B hs)
           (ext (world (snd (createContext (demo_platform B hs)
              (flag (skip_tls_verification req)) demo_server)))) =
           (Inr (demo_page B hs), [''UserAgent'', ''newContext'', ''route'', ''newPage''])"
    and "fst (page_close (demo_page B hs) x) = Inr ()"
    and "fst (context_close (demo_context B hs) x) = Inr ()"
proof -
  from assms(1) have ok: "''UserAgent'' \<notin> B" "''newContext'' \<notin> B" "''route'' \<notin> B" "''newPage'' \<notin> B"
    "''page.close'' \<notin> B" "''context.close'' \<notin> B"
    by auto
  let ?r = "createContext (demo_platform B hs) (flag (skip_tls_verification req)) demo_server"
  from ok have r: "fst ?r = Inr (demo_context B hs)"
    "ext (world (snd ?r)) = [''UserAgent'', ''newContext'', ''route'']"
    by (simp_all add: createContext_def bnd_apply in_world_apply ext_call_apply browser_call_apply
          ret_apply demo_platform_def demo_op_def demo_context_def demo_server_def demo_world_def
          flag_def)
  from r(1) show "?r = (Inr (demo_context B hs), snd ?r)" by (simp add: prod_eq_iff)
  from r(2) show "ext (world (snd ?r)) = [''UserAgent'', ''newContext'', ''route'']" .
  from ok show "newPage (demo_context B hs) (ext (world (snd ?r))) =
      (Inr (demo_page B hs), [''UserAgent'', ''newContext'', ''route'', ''newPage''])"
    unfolding r(2) by (simp add: demo_context_def demo_op_def)
  from ok show "fst (page_close (demo_page B hs) x) = Inr ()"
    by (simp add: demo_page_def demo_op_def)
  from ok show "fst (context_close (demo_context B hs) x) = Inr ()"
    by (simp add: demo_context_def demo_op_def)
qed

theorem navigation_fault_gives_internal_error_witness:
  "sent (fst (scrape_admitted (demo_platform {''goto''} None) demo_request demo_server)) =
     Json_error 500 ''An error occurred while fetching the page.''
   \<and> Errored ''Scrape error: goto failed''
       \<in> set (console (world (snd (scrape_admitted (demo_platform {''goto''} None) demo_request demo_server))))
   \<and> escaped (fst (scrape_admitted (demo_platform {''goto''} None) demo_request demo_server)) = None
   \<and> sent (fst (scrape_admitted (demo_platform {} None) demo_request demo_server)) =
       Json_200 \<lparr>json_content = ''<html></html>'', pageStatusCode = None, json_contentType = None,
                 json_screenshot = None, json_actions = None, pageError = Some ''Navigation failed''\<rparr>
   \<and> (\<exists>x_ok. goto (demo_page {} None) ''https://example.com/'' Load 15000
                [''UserAgent'', ''newContext'', ''route'', ''newPage''] = (Inr None, x_ok))
   \<and> getError (demo_platform {} None) None = Some ''Navigation failed''"
proof -
  let ?body = "\<lparr>json_content = ''<html></html>'', pageStatusCode = None, json_contentType = None,
                 json_screenshot = None, json_actions = None, pageError = Some ''Navigation failed''\<rparr>"
  have sub: "{''goto''} \<subseteq> {''goto'', ''screenshot'', ''fullPage'', ''pdf''}"
    "{} \<subseteq> {''goto'', ''screenshot'', ''fullPage'', ''pdf''}"
    by simp_all
  have skip: "skip_tls_verification demo_request = None"
    by (simp add: demo_request_def)
  have hdrs: "(case headers demo_request of None \<Rightarrow> ret ()
               | Some hs \<Rightarrow> ext_call (setExtraHTTPHeaders (demo_page B None) hs))
      ((world (snd (createContext (demo_platform B None)
           (flag (skip_tls_verification demo_request)) demo_server)))
         \<lparr>ext := [''UserAgent'', ''newContext'', ''route'', ''newPage'']\<rparr>) =
      (Inr (), (world (snd (createContext (demo_platform B None)
           (flag (skip_tls_verification demo_request)) demo_server)))
         \<lparr>ext := [''UserAgent'', ''newContext'', ''route'', ''newPage'']\<rparr>)" for B
    by (simp add: demo_request_def ret_apply)
  have thrown: "goto (demo_page {''goto''} None) (url demo_request) Load
      (case timeout demo_request of None \<Rightarrow> 15000 | Some n \<Rightarrow> n)
      [''UserAgent'', ''newContext'', ''route'', ''newPage''] =
      (Inl (JsError ''goto failed''), [''UserAgent'', ''newContext'', ''route'', ''newPage'', ''goto''])"
    by (simp add: demo_page_def demo_op_def demo_request_def)
  note faulty = navigation_fault_gives_internal_error
    [OF demo_session(1) [OF sub(1) skip] demo_session(3) [OF sub(1) skip]
        hdrs,
     where e = "JsError ''goto failed''"
       and x_nav = "[''UserAgent'', ''newContext'', ''route'', ''newPage'', ''goto'']"]
  from faulty thrown demo_session(4,5) [OF sub(1) skip]
  have a: "sent (fst (scrape_admitted (demo_platform {''goto''} None) demo_request demo_server)) =
      Json_error 500 ''An error occurred while fetching the page.''
    \<and> Errored ''Scrape error: goto failed''
        \<in> set (console (world (snd (scrape_admitted (demo_platform {''goto''} None) demo_request demo_server))))
    \<and> escaped (fst (scrape_admitted (demo_platform {''goto''} None) demo_request demo_server)) = None"
    by simp
  have reply: "sent (fst (scrape_admitted (demo_platform {} None) demo_request demo_server)) = Json_200 ?body"
    by code_simp
  note fine = navigation_fault_gives_internal_error
    [OF demo_session(1) [OF sub(2) skip] demo_session(3) [OF sub(2) skip]
        hdrs,
     where body = ?body]
  from fine reply
  have b: "\<exists>x_ok. goto (demo_page {} None) ''https://example.com/'' Load 15000
      [''UserAgent'', ''newContext'', ''route'', ''newPage''] = (Inr None, x_ok)"
    by (auto simp: demo_request_def)
  have c: "getError (demo_platform {} None) None = Some ''Navigation failed''"
    by (simp add: demo_platform_def demo_getError_def)
  from a reply b c show ?thesis by blast
qed

section \<open>Capture faults\<close>

text \<open>
  Claim C6, as stated, fails for the captures of the action list: the \<open>screenshot\<close> and
  \<open>pdf\<close> cases stand inside the same \<open>try\<close> as every other action, so a capture that
  throws there is logged and skipped, and the request is answered with its other results.
\<close>

theorem capture_fault_in_action_is_not_fatal:
  "page_screenshot (demo_page {''screenshot'', ''pdf''} (Some [])) False [] =
     (Inl (JsError ''screenshot failed''), [''screenshot''])
   \<and> sent (fst (scrape_admitted (demo_platform {''screenshot'', ''pdf''} (Some []))
               (demo_request\<lparr>actions := Some [Screenshot None, Pdf None None None, Scrape]\<rparr>)
               demo_server)) =
       Json_200 \<lparr>json_content = ''<html></html>'', pageStatusCode = Some 200,
                 json_contentType = None, json_screenshot = None,
                 json_actions = Some (empty_results\<lparr>scrapes :=
                   [\<lparr>scrape_url = ''https://example.com/'', scrape_html = ''<html></html>''\<rparr>]\<rparr>),
                 pageError = None\<rparr>
   \<and> console (world (snd (scrape_admitted (demo_platform {''screenshot'', ''pdf''} (Some []))
               (demo_request\<lparr>actions := Some [Screenshot None, Pdf None None None, Scrape]\<rparr>)
               demo_server))) =
       [Errored ''Action failed: screenshot failed'', Errored ''Action failed: pdf failed'']"
proof -
  have thrown: "page_screenshot (demo_page {''screenshot'', ''pdf''} (Some [])) False [] =
      (Inl (JsError ''screenshot failed''), [''screenshot''])"
    by (simp add: demo_page_def demo_op_def)
  have reply: "sent (fst (scrape_admitted (demo_platform {''screenshot'', ''pdf''} (Some []))
               (demo_request\<lparr>actions := Some [Screenshot None, Pdf None None None, Scrape]\<rparr>)
               demo_server)) =
       Json_200 \<lparr>json_content = ''<html></html>'', pageStatusCode = Some 200,
                 json_contentType = None, json_screenshot = None,
                 json_actions = Some (empty_results\<lparr>scrapes :=
                   [\<lparr>scrape_url = ''https://example.com/'', scrape_html = ''<html></html>''\<rparr>]\<rparr>),
                 pageError = None\<rparr>"
    by code_simp
  have logged: "console (world (snd (scrape_admitted (demo_platform {''screenshot'', ''pdf''} (Some []))
               (demo_request\<lparr>actions := Some [Screenshot None, Pdf None None None, Scrape]\<rparr>)
               demo_server))) =
       [Errored ''Action failed: screenshot failed'', Errored ''Action failed: pdf failed'']"
    by code_simp
  from thrown reply logged show ?thesis by blast
qed

text \<open>
  Claim C6, amended. For a request whose context and page were created: when the
  screenshot asked for by the flags of the request throws, after the navigation and the
  actions have returned, the render operation fails as a whole: the fault is logged and
  the reply is HTTP 500 with the generic error body. When the capture of a \<open>screenshot\<close>
  or \<open>pdf\<close> action throws, the fault is logged, the action leaves the results as they were
  and the loop goes on with the next action.
\<close>

theorem capture_fault_is_fatal_only_at_top_level:
  assumes ctx: "createContext P (flag (skip_tls_verification req)) sv = (Inr ctx, sv_ctx)"
      and pg: "newPage ctx (ext (world sv_ctx)) = (Inr page, x_page)"
  shows "(navigate_and_act P req page ((world sv_ctx)\<lparr>ext := x_page\<rparr>) =
            (Inr (result, actionResults), w_acted)
          \<and> (flag (screenshot req) \<or> flag (full_page_screenshot req))
          \<and> takeScreenshot P page (flag (full_page_screenshot req)) w_acted = (Inl e, w_fault) \<longrightarrow>
            sent (fst (scrape_admitted P req sv)) =
              Json_error 500 ''An error occurred while fetching the page.''
            \<and> Errored (''Scrape error: '' @ message e)
                \<in> set (console (world (snd (scrape_admitted P req sv)))))
       \<and> (page_screenshot page (case action_fullPage of None \<Rightarrow> False | Some b \<Rightarrow> b) (ext w) =
            (Inl e, x') \<longrightarrow>
            guarded_action P page (Screenshot action_fullPage) results w =
              (Inr results,
               w\<lparr>ext := x', console := console w @ [Errored (''Action failed: '' @ message e)]\<rparr>)
            \<and> action_loop P page (Screenshot action_fullPage # rest) results w =
                action_loop P page rest results
                  (w\<lparr>ext := x', console := console w @ [Errored (''Action failed: '' @ message e)]\<rparr>))
       \<and> (page_pdf page (make_pdfOptions action_landscape action_scale action_format) (ext w) =
            (Inl e, x') \<longrightarrow>
            guarded_action P page (Pdf action_landscape action_scale action_format) results w =
              (Inr results,
               w\<lparr>ext := x', console := console w @ [Errored (''Action failed: '' @ message e)]\<rparr>)
            \<and> action_loop P page (Pdf action_landscape action_scale action_format # rest) results w =
                action_loop P page rest results
                  (w\<lparr>ext := x', console := console w @ [Errored (''Action failed: '' @ message e)]\<rparr>))"
proof -
  let ?w_page = "(world sv_ctx)\<lparr>ext := x_page\<rparr>"
  let ?logged = "w\<lparr>ext := x', console := console w @ [Errored (''Action failed: '' @ message e)]\<rparr>"
  have top: "sent (fst (scrape_admitted P req sv)) =
        Json_error 500 ''An error occurred while fetching the page.''
      \<and> Errored (''Scrape error: '' @ message e)
          \<in> set (console (world (snd (scrape_admitted P req sv))))"
    if "navigate_and_act P req page ?w_page = (Inr (result, actionResults), w_acted)
        \<and> (flag (screenshot req) \<or> flag (full_page_screenshot req))
        \<and> takeScreenshot P page (flag (full_page_screenshot req)) w_acted = (Inl e, w_fault)"
  proof -
    from that have "render P req page ?w_page = (Inl e, w_fault)"
      by (auto simp: render_apply top_level_screenshot_def bnd_apply)
    from scrape_admitted_fault_logged [OF ctx pg this] show ?thesis by simp
  qed
  have shot: "guarded_action P page (Screenshot action_fullPage) results w = (Inr results, ?logged)
      \<and> action_loop P page (Screenshot action_fullPage # rest) results w =
          action_loop P page rest results ?logged"
    if "page_screenshot page (case action_fullPage of None \<Rightarrow> False | Some b \<Rightarrow> b) (ext w) = (Inl e, x')"
  proof -
    from takeScreenshot_capture_fault [OF that]
    have "run_action P page (Screenshot action_fullPage) results w = (Inl e, w\<lparr>ext := x'\<rparr>)"
      by (simp add: bnd_apply)
    from guarded_action_fault [OF this] show ?thesis by (simp add: bnd_apply)
  qed
  have pdf: "guarded_action P page (Pdf action_landscape action_scale action_format) results w =
        (Inr results, ?logged)
      \<and> action_loop P page (Pdf action_landscape action_scale action_format # rest) results w =
          action_loop P page rest results ?logged"
    if "page_pdf page (make_pdfOptions action_landscape action_scale action_format) (ext w) = (Inl e, x')"
  proof -
    from that
    have "run_action P page (Pdf action_landscape action_scale action_format) results w =
        (Inl e, w\<lparr>ext := x'\<rparr>)"
      by (simp add: bnd_apply ext_call_apply)
    from guarded_action_fault [OF this] show ?thesis by (simp add: bnd_apply)
  qed
  from top shot pdf show ?thesis by blast
qed

theorem capture_fault_is_fatal_only_at_top_level_witness:
  "sent (fst (scrape_admitted (demo_platform {''screenshot'', ''pdf''} (Some []))
            (demo_request\<lparr>screenshot := Some True\<rparr>) demo_server)) =
     Json_error 500 ''An error occurred while fetching the page.''
   \<and> Errored ''Scrape error: screenshot failed''
       \<in> set (console (world (snd (scrape_admitted (demo_platform {''screenshot'', ''pdf''} (Some []))
            (demo_request\<lparr>screenshot := Some True\<rparr>) demo_server))))
   \<and> guarded_action (demo_platform {''screenshot'', ''pdf''} (Some []))
        (demo_page {''screenshot'', ''pdf''} (Some [])) (Screenshot None) empty_results demo_world =
       (Inr empty_results,
        demo_world\<lparr>ext := [''screenshot''], console := [Errored ''Action failed: screenshot failed'']\<rparr>)
   \<and> guarded_action (demo_platform {''screenshot'', ''pdf''} (Some []))
        (demo_page {''screenshot'', ''pdf''} (Some [])) (Pdf None None None) empty_results demo_world =
       (Inr empty_results,
        demo_world\<lparr>ext := [''pdf''], console := [Errored ''Action failed: pdf failed'']\<rparr>)"
proof -
  let ?B = "{''screenshot'', ''pdf''}"
  let ?P = "demo_platform ?B (Some [])" and ?page = "demo_page ?B (Some [])"
  let ?req = "demo_request\<lparr>screenshot := Some True\<rparr>"
  let ?sv_ctx = "snd (createContext ?P (flag (skip_tls_verification ?req)) demo_server)"
  let ?w_page = "(world ?sv_ctx)\<lparr>ext := [''UserAgent'', ''newContext'', ''route'', ''newPage'']\<rparr>"
  let ?result = "\<lparr>content = ''<html></html>'', status = Some 200, outcome_headers = Some [],
                   contentType = None\<rparr>"
  let ?w_acted = "snd (navigate_and_act ?P ?req ?page ?w_page)"
  let ?w_fault = "snd (takeScreenshot ?P ?page (flag (full_page_screenshot ?req)) ?w_acted)"
  have sub: "?B \<subseteq> {''goto'', ''screenshot'', ''fullPage'', ''pdf''}" by simp
  have skip: "skip_tls_verification ?req = None" by (simp add: demo_request_def)
  have "fst (navigate_and_act ?P ?req ?page ?w_page) = Inr (?result, None)"
    by code_simp
  then have acted: "navigate_and_act ?P ?req ?page ?w_page = (Inr (?result, None), ?w_acted)"
    by (simp add: prod_eq_iff)
  have flags: "flag (screenshot ?req) \<or> flag (full_page_screenshot ?req)"
    by (simp add: flag_def)
  have "fst (takeScreenshot ?P ?page (flag (full_page_screenshot ?req)) ?w_acted) =
      Inl (JsError ''screenshot failed'')"
    by code_simp
  then have top: "takeScreenshot ?P ?page (flag (full_page_screenshot ?req)) ?w_acted =
      (Inl (JsError ''screenshot failed''), ?w_fault)"
    by (simp add: prod_eq_iff)
  have shot: "page_screenshot ?page (case None of None \<Rightarrow> False | Some b \<Rightarrow> b) (ext demo_world) =
      (Inl (JsError ''screenshot failed''), [''screenshot''])"
    by (simp add: demo_page_def demo_op_def demo_world_def)
  have pdf: "page_pdf ?page (make_pdfOptions None None None) (ext demo_world) =
      (Inl (JsError ''pdf failed''), [''pdf''])"
    by (simp add: demo_page_def demo_op_def demo_world_def)
  note a = capture_fault_is_fatal_only_at_top_level
    [OF demo_session(1) [OF sub skip] demo_session(3) [OF sub skip],
     where result = ?result and actionResults = None and w_acted = ?w_acted
       and e = "JsError ''screenshot failed''" and w_fault = ?w_fault
       and action_fullPage = None and w = demo_world and x' = "[''screenshot'']"
       and results = empty_results]
  note b = capture_fault_is_fatal_only_at_top_level
    [OF demo_session(1) [OF sub skip] demo_session(3) [OF sub skip],
     where e = "JsError ''pdf failed''" and action_landscape = None and action_scale = None
       and action_format = None and w = demo_world and x' = "[''pdf'']" and results = empty_results]
  from a acted flags top shot
  have first: "sent (fst (scrape_admitted ?P ?req demo_server)) =
        Json_error 500 ''An error occurred while fetching the page.''
      \<and> Errored ''Scrape error: screenshot failed''
          \<in> set (console (world (snd (scrape_admitted ?P ?req demo_server))))
      \<and> guarded_action ?P ?page (Screenshot None) empty_results demo_world =
          (Inr empty_results,
           demo_world\<lparr>ext := [''screenshot''], console := [Errored ''Action failed: screenshot failed'']\<rparr>)"
    by (simp add: demo_world_def)
  from b pdf
  have second: "guarded_action ?P ?page (Pdf None None None) empty_results demo_world =
      (Inr empty_results,
       demo_world\<lparr>ext := [''pdf''], console := [Errored ''Action failed: pdf failed'']\<rparr>)"
    by (simp add: demo_world_def)
  from first second show ?thesis by blast
qed

section \<open>Properties of the screenshot sequence\<close>









end
